theory Spec2Isabelle
  imports Main "HOL-Library.Word" "HOL-Library.Char_ord" "HOL-Library.List_Lexorder" "HOL-Library.Multiset"
begin

section \<open>Python values shared by the modules\<close>

text \<open>
  Python \<open>bytes\<close> are lists of 8-bit words; Python \<open>str\<close> values are \<open>string\<close>s
  (code points below 256); Python's unbounded \<open>int\<close> is \<open>int\<close>.
\<close>

type_synonym bytes = "8 word list"

subsection \<open>The standard base64 codec\<close>

text \<open>
  \<open>base64.b64encode\<close> and \<open>base64.b64decode\<close> belong to the Python standard library,
  not to the repository. The repository's functions below take the codec as arguments
  (\<open>dec\<close> returns \<open>None\<close> where \<open>b64decode\<close> raises \<open>binascii.Error\<close>), and every
  general theorem holds for any codec. The two definitions here are the RFC 4648
  encoder and the decoder of CPython's \<open>binascii.a2b_base64\<close> in its default
  (non-strict) mode; they instantiate the codec at concrete inputs.
\<close>

definition b64_alphabet :: string where
  "b64_alphabet = ''ABCDEFGHIJKLMNOPQRSTUVWXYZabcdefghijklmnopqrstuvwxyz0123456789+/''"

definition b64_char :: "nat \<Rightarrow> char" where
  "b64_char n = b64_alphabet ! (n mod 64)"

fun b64encode_nat :: "nat list \<Rightarrow> string" where
  "b64encode_nat [] = []"
| "b64encode_nat [a] =
     [b64_char (a div 4), b64_char ((a mod 4) * 16), CHR ''='', CHR ''='']"
| "b64encode_nat [a, b] =
     [b64_char (a div 4), b64_char ((a mod 4) * 16 + b div 16),
      b64_char ((b mod 16) * 4), CHR ''='']"
| "b64encode_nat (a # b # c # rest) =
     [b64_char (a div 4), b64_char ((a mod 4) * 16 + b div 16),
      b64_char ((b mod 16) * 4 + c div 64), b64_char (c mod 64)] @ b64encode_nat rest"

definition b64encode :: "bytes \<Rightarrow> string" where
  "b64encode bs = b64encode_nat (map unat bs)"

definition b64_index :: "char \<Rightarrow> nat option" where
  "b64_index c =
     (let n = (of_char c :: nat) in
      if 65 \<le> n \<and> n \<le> 90 then Some (n - 65)
      else if 97 \<le> n \<and> n \<le> 122 then Some (n - 71)
      else if 48 \<le> n \<and> n \<le> 57 then Some (n + 4)
      else if n = 43 then Some 62
      else if n = 47 then Some 63
      else None)"

text \<open>
  The decoder's loop state: the position in the current group of four (\<open>quad_pos\<close>),
  the bits left over from the previous character (\<open>leftchar\<close>) and the padding
  characters seen in a row (\<open>pads\<close>). Characters outside the alphabet are skipped;
  a full padding sequence ends the decoding; a group left open at the end is an error.
\<close>

fun a2b_base64 :: "nat \<Rightarrow> nat \<Rightarrow> nat \<Rightarrow> string \<Rightarrow> nat list option" where
  "a2b_base64 quad_pos leftchar pads [] = (if quad_pos \<noteq> 0 then None else Some [])"
| "a2b_base64 quad_pos leftchar pads (c # cs) =
     (if c = CHR ''='' then
        (if quad_pos \<ge> 2 \<and> quad_pos + (pads + 1) \<ge> 4 then Some []
         else a2b_base64 quad_pos leftchar (if quad_pos \<ge> 2 then pads + 1 else pads) cs)
      else case b64_index c of
        None \<Rightarrow> a2b_base64 quad_pos leftchar pads cs
      | Some v \<Rightarrow>
          (if quad_pos = 0 then a2b_base64 1 v 0 cs
           else if quad_pos = 1 then
             map_option ((#) (leftchar * 4 + v div 16)) (a2b_base64 2 (v mod 16) 0 cs)
           else if quad_pos = 2 then
             map_option ((#) (leftchar * 16 + v div 4)) (a2b_base64 3 (v mod 4) 0 cs)
           else
             map_option ((#) (leftchar * 64 + v)) (a2b_base64 0 0 0 cs)))"

definition b64decode :: "string \<Rightarrow> bytes option" where
  "b64decode s =
     (if \<exists>c \<in> set s. (of_char c :: nat) \<ge> 128 then None
      else map_option (map of_nat) (a2b_base64 0 0 0 s))"



text \<open>
  \<open>bytes.fromhex\<close> is a standard-library function and an argument of the functions
  that call it (\<open>None\<close> where it raises \<open>ValueError\<close>). This definition follows
  CPython: ASCII whitespace before a pair of digits is skipped, and every byte is two
  hexadecimal digits. It instantiates the argument at concrete inputs.
\<close>

definition hex_value :: "char \<Rightarrow> nat option" where
  "hex_value c =
     (let n = (of_char c :: nat) in
      if 48 \<le> n \<and> n \<le> 57 then Some (n - 48)
      else if 97 \<le> n \<and> n \<le> 102 then Some (n - 87)
      else if 65 \<le> n \<and> n \<le> 70 then Some (n - 55)
      else None)"

definition is_space :: "char \<Rightarrow> bool" where
  "is_space c = ((of_char c :: nat) \<in> {9, 10, 11, 12, 13, 32})"

fun bytes_fromhex :: "string \<Rightarrow> bytes option" where
  "bytes_fromhex [] = Some []"
| "bytes_fromhex [c] = (if is_space c then Some [] else None)"
| "bytes_fromhex (c # d # rest) =
     (if is_space c then bytes_fromhex (d # rest)
      else case (hex_value c, hex_value d) of
        (Some hi, Some lo) \<Rightarrow> map_option ((#) (of_nat (hi * 16 + lo))) (bytes_fromhex rest)
      | _ \<Rightarrow> None)"

text \<open>Lower-case hexadecimal text of bytes (\<open>bytes.hex()\<close>).\<close>

definition hex_digit :: "nat \<Rightarrow> char" where
  "hex_digit n = ''0123456789abcdef'' ! (n mod 16)"

definition bytes_hex :: "bytes \<Rightarrow> string" where
  "bytes_hex bs = concat (map (\<lambda>b. [hex_digit (unat b div 16), hex_digit (unat b mod 16)]) bs)"

subsection \<open>Exceptions\<close>

text \<open>
  The exception classes the modelled functions raise: Python's built-in ones, those of
  the standard library (\<open>binascii.Error\<close>, \<open>json.JSONDecodeError\<close>, \<open>zlib.error\<close>),
  the signing client's own, and \<open>LedgerError\<close> for whatever the ledger SDK raises
  (a failed query, a rejected submission, a confirmation that never comes).
  \<open>SignerUnavailableError\<close>, \<open>AuthenticationError\<close>, \<open>KeyNotFoundError\<close> and
  \<open>SigningRejectedError\<close> are subclasses of \<open>SignerError\<close> in the source; the constructor
  \<open>SignerError\<close> stands for an exception of exactly that class.
\<close>

datatype py_exn =
    ValueError
  | TypeError
  | AttributeError
  | KeyError
  | IndexError
  | OverflowError
  | BinasciiError
  | JSONDecodeError
  | ZlibError
  | LedgerError
  | SignerError
  | SignerUnavailableError
  | AuthenticationError
  | KeyNotFoundError
  | SigningRejectedError

subsection \<open>JSON values\<close>

text \<open>
  What \<open>json.loads\<close> returns and \<open>json.dumps\<close> takes: a dict keeps its insertion order,
  so an object is an association list (its keys distinct). Numbers with a fraction or
  an exponent (Python floats) are outside the model.
\<close>

datatype json =
    JNull
  | JBool bool
  | JInt int
  | JStr string
  | JArr "json list"
  | JObj "(string \<times> json) list"

text \<open>Python's truth value of a JSON value (\<open>if x\<close>, \<open>not x\<close>, \<open>x or y\<close>).\<close>

fun py_truthy :: "json \<Rightarrow> bool" where
  "py_truthy JNull = False"
| "py_truthy (JBool b) = b"
| "py_truthy (JInt i) = (i \<noteq> 0)"
| "py_truthy (JStr s) = (s \<noteq> [])"
| "py_truthy (JArr xs) = (xs \<noteq> [])"
| "py_truthy (JObj kvs) = (kvs \<noteq> [])"

text \<open>\<open>d.get(k, default)\<close> on a value that should be a dict: \<open>None\<close> is the \<open>AttributeError\<close> of a value without \<open>get\<close>.\<close>

fun py_get :: "json \<Rightarrow> string \<Rightarrow> json \<Rightarrow> json option" where
  "py_get (JObj kvs) k dflt = Some (case map_of kvs k of None \<Rightarrow> dflt | Some v \<Rightarrow> v)"
| "py_get _ k dflt = None"

text \<open>\<open>for h in x\<close>: a list yields its elements, a string its characters, a dict its keys; \<open>None\<close> is the \<open>TypeError\<close> of a value that is not iterable.\<close>

fun py_iter :: "json \<Rightarrow> json list option" where
  "py_iter (JArr xs) = Some xs"
| "py_iter (JStr s) = Some (map (\<lambda>c. JStr [c]) s)"
| "py_iter (JObj kvs) = Some (map (\<lambda>kv. JStr (fst kv)) kvs)"
| "py_iter _ = None"


text \<open>\<open>d.get(k, default)\<close> on a dict.\<close>

definition dict_get :: "(string \<times> json) list \<Rightarrow> string \<Rightarrow> json \<Rightarrow> json" where
  "dict_get kvs k dflt = (case map_of kvs k of None \<Rightarrow> dflt | Some v \<Rightarrow> v)"

text \<open>\<open>x[k]\<close> with a string key: \<open>KeyError\<close> on a dict without the key, \<open>TypeError\<close> on anything that is not a dict.\<close>

fun py_item :: "json \<Rightarrow> string \<Rightarrow> py_exn + json" where
  "py_item (JObj kvs) k = (case map_of kvs k of None \<Rightarrow> Inl KeyError | Some v \<Rightarrow> Inr v)"
| "py_item _ k = Inl TypeError"

text \<open>\<open>i == x\<close> for an integer \<open>i\<close> and a JSON value: a bool counts as 0 or 1, other types are never equal.\<close>

fun py_eq_int :: "int \<Rightarrow> json \<Rightarrow> bool" where
  "py_eq_int i (JInt j) = (i = j)"
| "py_eq_int i (JBool b) = (i = (if b then 1 else 0))"
| "py_eq_int i _ = False"

text \<open>\<open>len(x)\<close>: \<open>None\<close> is the \<open>TypeError\<close> of a value without a length.\<close>

fun py_len :: "json \<Rightarrow> nat option" where
  "py_len (JStr s) = Some (length s)"
| "py_len (JArr xs) = Some (length xs)"
| "py_len (JObj kvs) = Some (length kvs)"
| "py_len _ = None"

text \<open>
  \<open>int(x)\<close>. On a string it parses the text (\<open>int_of_str\<close>, an argument: \<open>None\<close> where
  Python raises \<open>ValueError\<close>); a bool is 0 or 1; \<open>None\<close>, lists and dicts raise
  \<open>TypeError\<close>.
\<close>

fun py_int :: "(string \<Rightarrow> int option) \<Rightarrow> json \<Rightarrow> py_exn + int" where
  "py_int int_of_str (JInt i) = Inr i"
| "py_int int_of_str (JBool b) = Inr (if b then 1 else 0)"
| "py_int int_of_str (JStr s) = (case int_of_str s of None \<Rightarrow> Inl ValueError | Some i \<Rightarrow> Inr i)"
| "py_int int_of_str _ = Inl TypeError"

text \<open>Decimal text of an integer (\<open>str(i)\<close>, and how \<open>json.dumps\<close> writes it).\<close>

fun show_nat :: "nat \<Rightarrow> string" where
  "show_nat n =
     (if n < 10 then [char_of (48 + n)]
      else show_nat (n div 10) @ [char_of (48 + n mod 10)])"

declare show_nat.simps [simp del]

definition show_int :: "int \<Rightarrow> string" where
  "show_int i = (if i < 0 then CHR ''-'' # show_nat (nat (- i)) else show_nat (nat i))"







subsection \<open>\<open>json.dumps\<close> with compact separators\<close>

text \<open>
  \<open>json.dumps(x, separators=(",", ":"))\<close>, with \<open>sort_keys\<close> as a flag. The default
  \<open>ensure_ascii\<close> escapes the quote, the backslash and every character outside the
  printable ASCII range, so the text is ASCII and \<open>.encode()\<close> maps each character to
  one byte. A dict is written in its own key order unless \<open>sort_keys\<close> is set.
\<close>

definition escape_char :: "char \<Rightarrow> string" where
  "escape_char c =
     (let n = (of_char c :: nat) in
      if n = 34 then [CHR 0x5C, CHR 0x22]
      else if n = 92 then [CHR 0x5C, CHR 0x5C]
      else if n = 10 then [CHR 0x5C, CHR ''n'']
      else if n = 13 then [CHR 0x5C, CHR ''r'']
      else if n = 9 then [CHR 0x5C, CHR ''t'']
      else if n = 8 then [CHR 0x5C, CHR ''b'']
      else if n = 12 then [CHR 0x5C, CHR ''f'']
      else if 32 \<le> n \<and> n \<le> 126 then [c]
      else [CHR 0x5C, CHR ''u'', CHR ''0'', CHR ''0'', hex_digit (n div 16), hex_digit (n mod 16)])"

definition dumps_str :: "string \<Rightarrow> string" where
  "dumps_str s = CHR 0x22 # concat (map escape_char s) @ [CHR 0x22]"

fun join :: "string \<Rightarrow> string list \<Rightarrow> string" where
  "join sep [] = []"
| "join sep [x] = x"
| "join sep (x # y # ys) = x @ sep @ join sep (y # ys)"

primrec json_dumps :: "bool \<Rightarrow> json \<Rightarrow> string" where
  "json_dumps sort_keys JNull = ''null''"
| "json_dumps sort_keys (JBool b) = (if b then ''true'' else ''false'')"
| "json_dumps sort_keys (JInt i) = show_int i"
| "json_dumps sort_keys (JStr s) = dumps_str s"
| "json_dumps sort_keys (JArr xs) = ''['' @ join '','' (map (json_dumps sort_keys) xs) @ '']''"
| "json_dumps sort_keys (JObj kvs) =
     ''{'' @ join '',''
        (map (\<lambda>(k, v). dumps_str k @ '':'' @ v)
           ((if sort_keys then sort_key fst else (\<lambda>x. x))
              (map (map_prod (\<lambda>k. k) (json_dumps sort_keys)) kvs))) @ ''}''"

text \<open>\<open>str.encode()\<close> of ASCII text, and a bytes literal such as \<open>b"create"\<close>.\<close>

definition encode_ascii :: "string \<Rightarrow> bytes" where
  "encode_ascii s = map (\<lambda>c. of_nat (of_char c)) s"

text \<open>
  An f-string: its template, with \<open>{}\<close> where a value is formatted in, and the values;
  \<open>Joined\<close> is a fixed text followed by \<open>"; ".join\<close> of messages. Log entries and error
  texts are kept in this form.
\<close>

datatype message = Msg string "json list" | Joined string "message list"

text \<open>
  What a tool function gives back: the dict \<open>{"error": ...}\<close> or a dict of results.
  A call either returns or raises.
\<close>

datatype tool_result = Error message | Ok "(string \<times> json) list"

datatype 'a outcome = Raise py_exn | Return 'a

section \<open>The signing client: \<open>sdk/python/aplane/signer.py\<close>\<close>

subsection \<open>\<open>assemble_group\<close>\<close>

text \<open>
  The exceptions \<open>assemble_group\<close> raises. The first four are the \<open>ValueError\<close>s of the
  source, told apart by their messages (the constructor arguments are the values the
  message formats); the last is the \<open>binascii.Error\<close> of \<open>base64.b64decode\<close>.
\<close>

datatype assemble_error =
    EmptySignedLists
  | LengthMismatch nat nat nat
  | NoSigner nat
  | MultipleSigners nat
  | Base64Error

text \<open>The first loop: \<open>for i, sl in enumerate(signed_lists): if len(sl) != group_len: raise\<close>.\<close>

fun check_lengths :: "nat \<Rightarrow> nat \<Rightarrow> string list list \<Rightarrow> assemble_error option" where
  "check_lengths group_len i [] = None"
| "check_lengths group_len i (sl # rest) =
     (if length sl \<noteq> group_len then Some (LengthMismatch i (length sl) group_len)
      else check_lengths group_len (Suc i) rest)"

text \<open>
  The comprehension \<open>[sl[idx] for sl in signed_lists if sl[idx]]\<close>: a string is truthy
  when it is not empty. It is evaluated only after the length check, so \<open>sl[idx]\<close> is
  in range.
\<close>

definition entries_at :: "string list list \<Rightarrow> nat \<Rightarrow> string list" where
  "entries_at signed_lists idx = filter (\<lambda>e. e \<noteq> []) (map (\<lambda>sl. sl ! idx) signed_lists)"

text \<open>The second loop, over \<open>range(group_len)\<close>, building \<open>merged\<close> in slot order.\<close>

fun merge_slots :: "string list list \<Rightarrow> nat list \<Rightarrow> assemble_error + string list" where
  "merge_slots signed_lists [] = Inr []"
| "merge_slots signed_lists (idx # idxs) =
     (let entries = entries_at signed_lists idx in
      if length entries = 0 then Inl (NoSigner idx)
      else if length entries > 1 then Inl (MultipleSigners idx)
      else (case merge_slots signed_lists idxs of
              Inl e \<Rightarrow> Inl e
            | Inr merged \<Rightarrow> Inr (hd entries # merged)))"

text \<open>\<open>b"".join(base64.b64decode(s) for s in merged)\<close>: the first entry that fails to decode raises.\<close>

fun decode_join :: "(string \<Rightarrow> bytes option) \<Rightarrow> string list \<Rightarrow> bytes option" where
  "decode_join dec [] = Some []"
| "decode_join dec (s # ss) =
     (case dec s of
        None \<Rightarrow> None
      | Some b \<Rightarrow> map_option ((@) b) (decode_join dec ss))"

definition assemble_group ::
  "(string \<Rightarrow> bytes option) \<Rightarrow> (bytes \<Rightarrow> string) \<Rightarrow> string list list \<Rightarrow> assemble_error + string"
where
  "assemble_group dec enc signed_lists =
     (case signed_lists of
        [] \<Rightarrow> Inl EmptySignedLists
      | first # _ \<Rightarrow>
          (let group_len = length first in
           case check_lengths group_len 0 signed_lists of
             Some e \<Rightarrow> Inl e
           | None \<Rightarrow>
               (case merge_slots signed_lists [0..<group_len] of
                  Inl e \<Rightarrow> Inl e
                | Inr merged \<Rightarrow>
                    (case decode_join dec merged of
                       None \<Rightarrow> Inl Base64Error
                     | Some all_bytes \<Rightarrow> Inr (enc all_bytes)))))"

subsection \<open>\<open>SignerClient._build_sign_request_body\<close> and \<open>SignerClient._sign_request\<close>\<close>

text \<open>One entry of the request array: passthrough, foreign or sign mode.\<close>

datatype sign_req =
    PassthroughReq string
  | ForeignReq string "int option"
  | SignReq string string string "(string \<times> string) list option"

text \<open>
  The validation loops at the head of \<open>_build_sign_request_body\<close>. A dict with integer
  keys is an association list; \<open>n\<close> is \<open>len(txns)\<close>.
\<close>

definition passthrough_in_range :: "(int \<times> string) list \<Rightarrow> nat \<Rightarrow> bool" where
  "passthrough_in_range passthrough n = list_all (\<lambda>(idx, _). \<not> (idx < 0 \<or> idx \<ge> int n)) passthrough"

definition lsig_sizes_valid :: "(int \<times> int) list \<Rightarrow> nat \<Rightarrow> bool" where
  "lsig_sizes_valid lsig_sizes n =
     list_all (\<lambda>(idx, size). \<not> (idx < 0 \<or> idx \<ge> int n) \<and> \<not> size < 0) lsig_sizes"

text \<open>
  The loop over \<open>enumerate(zip(txns, auth_addresses))\<close>. \<open>encode_transaction\<close> (msgpack
  encoding by the ledger SDK) is an argument: it returns the hexadecimal bytes and the
  sender. \<open>strict_dec\<close> is \<open>base64.b64decode(..., validate=True)\<close>. An auth address that
  is \<open>None\<close> or empty marks a foreign slot.
\<close>

fun build_requests ::
  "('txn \<Rightarrow> string \<times> string) \<Rightarrow> (string \<Rightarrow> bytes option) \<Rightarrow>
   (string \<times> (string \<times> bytes) list) list \<Rightarrow> (int \<times> string) list \<Rightarrow> (int \<times> int) list \<Rightarrow>
   nat \<Rightarrow> ('txn option \<times> string option) list \<Rightarrow> py_exn + sign_req list"
where
  "build_requests encode_transaction strict_dec lsig_args_map passthrough lsig_sizes i [] = Inr []"
| "build_requests encode_transaction strict_dec lsig_args_map passthrough lsig_sizes i ((txn, auth_addr) # rest) =
     (let tail = build_requests encode_transaction strict_dec lsig_args_map passthrough lsig_sizes (Suc i) rest;
          push = (\<lambda>req. case tail of Inl e \<Rightarrow> Inl e | Inr reqs \<Rightarrow> Inr (req # reqs))
      in case map_of passthrough (int i) of
        Some signed_b64 \<Rightarrow>
          (case strict_dec signed_b64 of
             None \<Rightarrow> Inl ValueError
           | Some raw \<Rightarrow> push (PassthroughReq (bytes_hex raw)))
      | None \<Rightarrow>
          (if auth_addr = None \<or> auth_addr = Some [] then
             (case txn of
                None \<Rightarrow> Inl ValueError
              | Some t \<Rightarrow> push (ForeignReq (fst (encode_transaction t)) (map_of lsig_sizes (int i))))
           else
             (case txn of
                None \<Rightarrow> Inl ValueError
              | Some t \<Rightarrow>
                  push (SignReq (fst (encode_transaction t)) (the auth_addr) (snd (encode_transaction t))
                          (map_option (map (\<lambda>(name, val). (name, bytes_hex val)))
                             (map_of lsig_args_map (the auth_addr)))))))"

definition build_sign_request_body ::
  "('txn \<Rightarrow> string \<times> string) \<Rightarrow> (string \<Rightarrow> bytes option) \<Rightarrow>
   'txn option list \<Rightarrow> string option list \<Rightarrow>
   (string \<times> (string \<times> bytes) list) list \<Rightarrow> (int \<times> string) list \<Rightarrow> (int \<times> int) list \<Rightarrow>
   py_exn + sign_req list"
where
  "build_sign_request_body encode_transaction strict_dec txns auth_addresses lsig_args_map passthrough lsig_sizes =
     (if \<not> passthrough_in_range passthrough (length txns) then Inl ValueError
      else if \<not> lsig_sizes_valid lsig_sizes (length txns) then Inl ValueError
      else build_requests encode_transaction strict_dec lsig_args_map passthrough lsig_sizes 0
             (zip txns auth_addresses))"

text \<open>
  What \<open>session.post\<close> gives: a \<open>requests.RequestException\<close>, or a response with its
  status code, its body parsed as JSON (\<open>None\<close> when the body is empty or is not JSON)
  and its text. The remote signer is any function from the request array to such an
  outcome.
\<close>

record http_response =
  status_code :: nat
  body_json :: "json option"
  body_text :: string

datatype post_outcome = RequestException | Response http_response

type_synonym server = "sign_req list \<Rightarrow> post_outcome"

text \<open>\<open>_safe_json\<close>: the parsed body, or the empty dict.\<close>

definition safe_json :: "http_response \<Rightarrow> json" where
  "safe_json resp = (case body_json resp of None \<Rightarrow> JObj [] | Some j \<Rightarrow> j)"

definition lower_char :: "char \<Rightarrow> char" where
  "lower_char c =
     (let n = (of_char c :: nat) in if 65 \<le> n \<and> n \<le> 90 then char_of (n + 32) else c)"

fun is_substring :: "string \<Rightarrow> string \<Rightarrow> bool" where
  "is_substring pat [] = (pat = [])"
| "is_substring pat (c # cs) = (take (length pat) (c # cs) = pat \<or> is_substring pat cs)"

text \<open>The \<open>for h in signed_hexes\<close> loop: hexadecimal text becomes base64 text, \<open>""\<close> stays \<open>""\<close>.\<close>

fun convert_signed ::
  "(string \<Rightarrow> bytes option) \<Rightarrow> (bytes \<Rightarrow> string) \<Rightarrow> json list \<Rightarrow> py_exn + string list"
where
  "convert_signed fromhex enc [] = Inr []"
| "convert_signed fromhex enc (h # hs) =
     (if h = JStr [] then
        (case convert_signed fromhex enc hs of
           Inl e \<Rightarrow> Inl e
         | Inr result \<Rightarrow> Inr ([] # result))
      else case h of
        JStr hex \<Rightarrow>
          (case fromhex hex of
             None \<Rightarrow> Inl ValueError
           | Some raw \<Rightarrow>
               (case convert_signed fromhex enc hs of
                  Inl e \<Rightarrow> Inl e
                | Inr result \<Rightarrow> Inr (enc raw # result)))
      | _ \<Rightarrow> Inl TypeError)"

definition handle_sign_response ::
  "(string \<Rightarrow> bytes option) \<Rightarrow> (bytes \<Rightarrow> string) \<Rightarrow> post_outcome \<Rightarrow> py_exn + string list"
where
  "handle_sign_response fromhex enc outcome =
     (case outcome of
        RequestException \<Rightarrow> Inl SignerUnavailableError
      | Response resp \<Rightarrow>
          (if status_code resp = 401 then Inl AuthenticationError
           else if status_code resp = 400 then
             (case py_get (safe_json resp) ''error'' (JStr (body_text resp)) of
                None \<Rightarrow> Inl AttributeError
              | Some (JStr error) \<Rightarrow>
                  (if is_substring ''not found'' (map lower_char error) then Inl KeyNotFoundError
                   else Inl SignerError)
              | Some _ \<Rightarrow> Inl AttributeError)
           else if status_code resp = 403 then
             (case py_get (safe_json resp) ''error'' (JStr ''Signing request rejected by operator'') of
                None \<Rightarrow> Inl AttributeError
              | Some _ \<Rightarrow> Inl SigningRejectedError)
           else if status_code resp = 503 then
             (case py_get (safe_json resp) ''error'' (JStr ''Signer unavailable'') of
                None \<Rightarrow> Inl AttributeError
              | Some _ \<Rightarrow> Inl SignerUnavailableError)
           else if status_code resp \<noteq> 200 then Inl SignerError
           else case body_json resp of
             None \<Rightarrow> Inl SignerError
           | Some data \<Rightarrow>
               (case py_get data ''error'' JNull of
                  None \<Rightarrow> Inl AttributeError
                | Some err \<Rightarrow>
                    (if py_truthy err then Inl SignerError
                     else case py_get data ''signed'' (JArr []) of
                       None \<Rightarrow> Inl AttributeError
                     | Some signed_hexes \<Rightarrow>
                         (if \<not> py_truthy signed_hexes then Inl SignerError
                          else case py_iter signed_hexes of
                            None \<Rightarrow> Inl TypeError
                          | Some hs \<Rightarrow> convert_signed fromhex enc hs)))))"

definition sign_request ::
  "('txn \<Rightarrow> string \<times> string) \<Rightarrow> (string \<Rightarrow> bytes option) \<Rightarrow> (string \<Rightarrow> bytes option) \<Rightarrow>
   (bytes \<Rightarrow> string) \<Rightarrow> server \<Rightarrow>
   'txn option list \<Rightarrow> string option list \<Rightarrow>
   (string \<times> (string \<times> bytes) list) list \<Rightarrow> (int \<times> string) list \<Rightarrow> (int \<times> int) list \<Rightarrow>
   py_exn + string list"
where
  "sign_request encode_transaction strict_dec fromhex enc post txns auth_addresses lsig_args_map passthrough lsig_sizes =
     (case build_sign_request_body encode_transaction strict_dec txns auth_addresses
             lsig_args_map passthrough lsig_sizes of
        Inl e \<Rightarrow> Inl e
      | Inr request_body \<Rightarrow> handle_sign_response fromhex enc (post request_body))"

subsection \<open>\<open>SignerClient.sign_transactions\<close>\<close>

text \<open>
  \<open>auth_addresses\<close> defaults to each transaction's sender (\<open>sender_of\<close>), \<open>None\<close> for a
  missing transaction. After \<open>_sign_request\<close>, any empty entry raises \<open>SignerError\<close>;
  otherwise the entries are decoded, joined and encoded again.
\<close>

definition auth_addresses_or_senders ::
  "('txn \<Rightarrow> string) \<Rightarrow> 'txn option list \<Rightarrow> string option list option \<Rightarrow> string option list"
where
  "auth_addresses_or_senders sender_of txns auth_addresses_opt =
     (case auth_addresses_opt of
        None \<Rightarrow> map (map_option sender_of) txns
      | Some a \<Rightarrow> a)"

definition sign_transactions ::
  "('txn \<Rightarrow> string) \<Rightarrow> ('txn \<Rightarrow> string \<times> string) \<Rightarrow> (string \<Rightarrow> bytes option) \<Rightarrow>
   (string \<Rightarrow> bytes option) \<Rightarrow> (string \<Rightarrow> bytes option) \<Rightarrow> (bytes \<Rightarrow> string) \<Rightarrow> server \<Rightarrow>
   'txn option list \<Rightarrow> string option list option \<Rightarrow>
   (string \<times> (string \<times> bytes) list) list \<Rightarrow> (int \<times> string) list \<Rightarrow> (int \<times> int) list \<Rightarrow>
   py_exn + string"
where
  "sign_transactions sender_of encode_transaction strict_dec fromhex dec enc post
     txns auth_addresses_opt lsig_args_map passthrough lsig_sizes =
     (let auth_addresses = auth_addresses_or_senders sender_of txns auth_addresses_opt
      in if length auth_addresses \<noteq> length txns then Inl ValueError
         else case sign_request encode_transaction strict_dec fromhex enc post txns auth_addresses
                     lsig_args_map passthrough lsig_sizes of
           Inl e \<Rightarrow> Inl e
         | Inr signed_list \<Rightarrow>
             (if \<exists>s \<in> set signed_list. s = [] then Inl SignerError
              else case decode_join dec signed_list of
                None \<Rightarrow> Inl BinasciiError
              | Some all_bytes \<Rightarrow> Inr (enc all_bytes)))"

text \<open>
  Four signers: one answers every request with one signed and one foreign slot, one
  signs two slots, one answers with a single signed entry whatever was asked, and one
  answers with an empty entry followed by text that is not hexadecimal.
\<close>

definition foreign_slot_server :: server where
  "foreign_slot_server request_body =
     Response \<lparr>status_code = 200,
               body_json = Some (JObj [(''signed'', JArr [JStr ''41'', JStr ''''])]),
               body_text = ''''\<rparr>"

definition full_server :: server where
  "full_server request_body =
     Response \<lparr>status_code = 200,
               body_json = Some (JObj [(''signed'', JArr [JStr ''41'', JStr ''42''])]),
               body_text = ''''\<rparr>"

definition short_reply_server :: server where
  "short_reply_server request_body =
     Response \<lparr>status_code = 200,
               body_json = Some (JObj [(''signed'', JArr [JStr ''41''])]),
               body_text = ''''\<rparr>"

definition malformed_reply_server :: server where
  "malformed_reply_server request_body =
     Response \<lparr>status_code = 200,
               body_json = Some (JObj [(''signed'', JArr [JStr '''', JStr ''zz''])]),
               body_text = ''''\<rparr>"


subsection \<open>\<open>SignerClient.sign_transaction\<close> and \<open>SignerClient.sign_transactions_list\<close>\<close>

text \<open>
  \<open>sign_transaction\<close> signs one transaction with its sender's key unless an auth address
  is given, and joins everything the server returns (the transaction and any padding
  transactions the server added). \<open>lsig_args\<close> that are \<open>None\<close> or empty are not sent.
\<close>

definition sign_transaction ::
  "('txn \<Rightarrow> string) \<Rightarrow> ('txn \<Rightarrow> string \<times> string) \<Rightarrow> (string \<Rightarrow> bytes option) \<Rightarrow>
   (string \<Rightarrow> bytes option) \<Rightarrow> (string \<Rightarrow> bytes option) \<Rightarrow> (bytes \<Rightarrow> string) \<Rightarrow> server \<Rightarrow>
   'txn \<Rightarrow> string option \<Rightarrow> (string \<times> bytes) list \<Rightarrow> py_exn + string"
where
  "sign_transaction sender_of encode_transaction strict_dec fromhex dec enc post txn auth_address lsig_args =
     (let auth = (case auth_address of None \<Rightarrow> sender_of txn | Some a \<Rightarrow> a);
          lsig_args_map = (if lsig_args \<noteq> [] then [(auth, lsig_args)] else [])
      in case sign_request encode_transaction strict_dec fromhex enc post [Some txn] [Some auth]
                lsig_args_map [] [] of
           Inl e \<Rightarrow> Inl e
         | Inr signed_list \<Rightarrow>
             (case decode_join dec signed_list of
                None \<Rightarrow> Inl BinasciiError
              | Some all_bytes \<Rightarrow> Inr (enc all_bytes)))"

definition sign_transactions_list ::
  "('txn \<Rightarrow> string) \<Rightarrow> ('txn \<Rightarrow> string \<times> string) \<Rightarrow> (string \<Rightarrow> bytes option) \<Rightarrow>
   (string \<Rightarrow> bytes option) \<Rightarrow> (bytes \<Rightarrow> string) \<Rightarrow> server \<Rightarrow>
   'txn option list \<Rightarrow> string option list option \<Rightarrow>
   (string \<times> (string \<times> bytes) list) list \<Rightarrow> (int \<times> string) list \<Rightarrow> (int \<times> int) list \<Rightarrow>
   py_exn + string list"
where
  "sign_transactions_list sender_of encode_transaction strict_dec fromhex enc post
     txns auth_addresses_opt lsig_args_map passthrough lsig_sizes =
     (let auth_addresses = auth_addresses_or_senders sender_of txns auth_addresses_opt
      in if length auth_addresses \<noteq> length txns then Inl ValueError
         else sign_request encode_transaction strict_dec fromhex enc post txns auth_addresses
                lsig_args_map passthrough lsig_sizes)"

section \<open>The ledger SDK, the libraries and the outside world\<close>

text \<open>
  The transactions the examples build with the ledger SDK. \<open>suggested_params\<close> holds the
  fields of the SDK's parameter object that the code sets; a payment carries a note and
  an optional \<open>close_remainder_to\<close>, an asset transfer an asset index and an optional
  \<open>close_assets_to\<close>, an application call (always \<open>NoOp\<close>) its arguments, accounts and
  box references.
\<close>

record suggested_params =
  fee :: int
  min_fee :: int
  flat_fee :: bool

datatype txn =
    PaymentTxn string suggested_params string int bytes "string option"
  | AssetTransferTxn string suggested_params string int int "string option"
  | ApplicationCallTxn string suggested_params int "bytes list" "string list" "(int \<times> bytes) list"

fun txn_sender :: "txn \<Rightarrow> string" where
  "txn_sender (PaymentTxn sender sp receiver amt note close_to) = sender"
| "txn_sender (AssetTransferTxn sender sp receiver amt index close_to) = sender"
| "txn_sender (ApplicationCallTxn sender sp index app_args accounts boxes) = sender"

text \<open>Attribute \<open>receiver\<close>: an application call has none (\<open>AttributeError\<close>).\<close>

fun txn_receiver :: "txn \<Rightarrow> string option" where
  "txn_receiver (PaymentTxn sender sp receiver amt note close_to) = Some receiver"
| "txn_receiver (AssetTransferTxn sender sp receiver amt index close_to) = Some receiver"
| "txn_receiver (ApplicationCallTxn sender sp index app_args accounts boxes) = None"

fun txn_note :: "txn \<Rightarrow> bytes" where
  "txn_note (PaymentTxn sender sp receiver amt note close_to) = note"
| "txn_note _ = []"

text \<open>
  Functions of the standard library and of the ledger SDK that the examples call. They
  are not part of the repository, so the model takes them as a record of functions and
  the theorems hold for every such record. Where the Python function raises, the
  field returns \<open>None\<close>.
\<close>

record lib =
  b64_decode :: "string \<Rightarrow> bytes option"
  b64_decode_strict :: "string \<Rightarrow> bytes option"
  b64_encode :: "bytes \<Rightarrow> string"
  fromhex :: "string \<Rightarrow> bytes option"
  json_loads :: "bytes \<Rightarrow> json option"
  sha256 :: "bytes \<Rightarrow> bytes"
  zlib_compress :: "bytes \<Rightarrow> bytes"
  zlib_decompress :: "bytes \<Rightarrow> bytes option"
  int_of_str :: "string \<Rightarrow> int option"
  encode_transaction :: "txn \<Rightarrow> string \<times> string"
  msgpack_decode :: "string \<Rightarrow> txn option"
  is_valid_address :: "string \<Rightarrow> bool"
  get_application_address :: "int \<Rightarrow> string"

text \<open>
  The services a tool talks to during one call: the ledger node (\<open>algod\<close>) and the
  remote signer. Each is a function from the request to what comes back, an exception
  included.
\<close>

record env =
  algod_suggested_params :: "py_exn + suggested_params"
  algod_send_raw_transaction :: "string \<Rightarrow> py_exn + string"
  algod_wait_for_confirmation :: "string \<Rightarrow> py_exn option"
  algod_application_box_by_name :: "int \<Rightarrow> bytes \<Rightarrow> py_exn + json"
  signer_post_sign :: server
  signer_generate_key :: "string \<Rightarrow> (string \<times> string) list \<Rightarrow> py_exn + string"

text \<open>
  What a tool asks the outside world to do, in order: a signing request (transactions,
  auth addresses, logic-signature arguments), a submission of signed bytes, a key
  generation.
\<close>

datatype effect =
    SignCall "txn option list" "string option list" "(string \<times> (string \<times> bytes) list) list"
  | SubmitCall string
  | GenerateKeyCall string "(string \<times> string) list"

text \<open>The signing client's calls with the libraries and the signer of the environment filled in.\<close>

definition signer_sign_transaction ::
  "lib \<Rightarrow> env \<Rightarrow> txn \<Rightarrow> string option \<Rightarrow> (string \<times> bytes) list \<Rightarrow> py_exn + string"
where
  "signer_sign_transaction L E t auth_address lsig_args =
     sign_transaction txn_sender (encode_transaction L) (b64_decode_strict L) (fromhex L)
       (b64_decode L) (b64_encode L) (signer_post_sign E) t auth_address lsig_args"


definition signer_sign_transactions_list ::
  "lib \<Rightarrow> env \<Rightarrow> txn option list \<Rightarrow> string option list option \<Rightarrow> py_exn + string list"
where
  "signer_sign_transactions_list L E txns auth_addresses =
     sign_transactions_list txn_sender (encode_transaction L) (b64_decode_strict L) (fromhex L)
       (b64_encode L) (signer_post_sign E) txns auth_addresses [] [] []"

text \<open>
  The three steps that follow every signature: submit, wait for confirmation, and give
  the transaction id. \<open>submit_and_confirm\<close> returns the effects and the id or the
  exception.
\<close>

definition submit_and_confirm :: "env \<Rightarrow> string \<Rightarrow> effect list \<times> (py_exn + string)" where
  "submit_and_confirm E signed_txn =
     ([SubmitCall signed_txn],
      (case algod_send_raw_transaction E signed_txn of
         Inl e \<Rightarrow> Inl e
       | Inr txid \<Rightarrow>
           (case algod_wait_for_confirmation E txid of
              Some e \<Rightarrow> Inl e
            | None \<Rightarrow> Inr txid)))"

section \<open>The exchange store: \<open>examples/atomicswap/box_exchange.py\<close>\<close>


definition PREFIX_SIZE :: nat where
  "PREFIX_SIZE = 160"











text \<open>\<open>read_box\<close>: the box value, base64-decoded, without its prefix, decompressed.\<close>

definition read_box :: "lib \<Rightarrow> env \<Rightarrow> int \<Rightarrow> bytes \<Rightarrow> py_exn + bytes" where
  "read_box L E app_id box_name =
     (case algod_application_box_by_name E app_id box_name of
        Inl e \<Rightarrow> Inl e
      | Inr result \<Rightarrow>
          (case result of
             JObj kvs \<Rightarrow>
               (case map_of kvs ''value'' of
                  None \<Rightarrow> Inl KeyError
                | Some (JStr v) \<Rightarrow>
                    (case b64_decode L v of
                       None \<Rightarrow> Inl BinasciiError
                     | Some raw \<Rightarrow>
                         (case zlib_decompress L (drop PREFIX_SIZE raw) of
                            None \<Rightarrow> Inl ZlibError
                          | Some data \<Rightarrow> Inr data))
                | Some _ \<Rightarrow> Inl TypeError)
           | _ \<Rightarrow> Inl TypeError))"


section \<open>Session state and the message channel\<close>

text \<open>
  The two examples each declare a dataclass \<open>SwapState\<close>; the fields they share are the
  base record, and each example extends it. The atomic-swap example stores the peer's
  asset id and amount as they come out of a note, without conversion, so there they are
  JSON values; the HTLC example converts them with \<open>int\<close> first.
\<close>

record 'a session =
  role :: string
  status :: string
  my_address :: string
  peer_address :: string
  my_asa_id :: int
  my_asa_amount :: int
  peer_asa_id :: 'a
  peer_asa_amount :: 'a
  seen_txids :: "string list"
  last_seen_round :: int
  actions :: "message list"

text \<open>\<open>record(state, message)\<close> appends to the action history (the line it also writes to the shared log file is not modelled).\<close>

definition record_action :: "message \<Rightarrow> ('a, 'b) session_scheme \<Rightarrow> ('a, 'b) session_scheme" where
  "record_action m state = state\<lparr>actions := actions state @ [m]\<rparr>"

text \<open>
  The indexer. A query names an address and its role, and optionally a transaction
  type, a note prefix, a minimum round and an asset id. An answer is the list of
  transactions of the response, or \<open>None\<close> when there is no usable response (an
  exception, or a status other than 200). Of each transaction the model keeps the
  fields the code reads, with the defaults of its \<open>.get\<close> calls filled in.
\<close>

record idx_query =
  q_address :: string
  q_address_role :: string
  q_tx_type :: "string option"
  q_note_prefix :: "string option"
  q_min_round :: "int option"
  q_asset_id :: "int option"

record idx_txn =
  tx_id :: string
  tx_note :: string
  tx_confirmed_round :: int
  tx_sender :: string
  tx_lsig_args :: "string list"
  tx_pay_amount :: int

type_synonym indexer = "idx_query \<Rightarrow> idx_txn list option"

record note_msg =
  msg_txid :: string
  msg_round :: int
  msg_note :: "(string \<times> json) list"
  msg_sender :: string

text \<open>
  The loop of \<open>_poll_messages\<close> over the transactions of a response: a transaction whose
  id is in \<open>seen_txids\<close> is skipped, as is one without a note or whose note does not
  decode to a JSON object with a string \<open>type\<close> starting with the family prefix
  (\<open>swap_\<close> or \<open>htlc_\<close>).
\<close>

fun filter_messages :: "lib \<Rightarrow> string \<Rightarrow> idx_txn list \<Rightarrow> string set \<Rightarrow> note_msg list" where
  "filter_messages L family [] seen = []"
| "filter_messages L family (t # ts) seen =
     (let rest = filter_messages L family ts seen in
      if tx_id t \<in> seen then rest
      else if tx_note t = [] then rest
      else case b64_decode L (tx_note t) of
        None \<Rightarrow> rest
      | Some note_bytes \<Rightarrow>
          (case json_loads L note_bytes of
             Some (JObj note_json) \<Rightarrow>
               (case dict_get note_json ''type'' (JStr []) of
                  JStr ty \<Rightarrow>
                    (if take (length family) ty = family then
                       \<lparr>msg_txid = tx_id t, msg_round = tx_confirmed_round t,
                        msg_note = note_json, msg_sender = tx_sender t\<rparr> # rest
                     else rest)
                | _ \<Rightarrow> rest)
           | _ \<Rightarrow> rest))"

definition note_prefix :: "string \<Rightarrow> string" where
  \<open>note_prefix family = ''{"type":"'' @ family\<close>

definition poll_messages ::
  "lib \<Rightarrow> indexer \<Rightarrow> string \<Rightarrow> string \<Rightarrow> int \<Rightarrow> string set \<Rightarrow> note_msg list"
where
  "poll_messages L idx family address last_round seen =
     (case idx \<lparr>q_address = address, q_address_role = ''receiver'', q_tx_type = Some ''pay'',
                 q_note_prefix = Some (b64_encode L (encode_ascii (note_prefix family))),
                 q_min_round = (if last_round > 0 then Some last_round else None),
                 q_asset_id = None\<rparr> of
        None \<Rightarrow> []
      | Some txns \<Rightarrow> filter_messages L family txns seen)"

section \<open>The atomic swap: \<open>examples/atomicswap/tools.py\<close>\<close>

record swap_state = "json session" +
  group_txid :: string
  swap_app_id :: int
  swap_box_name :: string

definition is_algo :: "lib \<Rightarrow> json \<Rightarrow> py_exn + bool" where
  "is_algo L asa_id = (case py_int (int_of_str L) asa_id of Inl e \<Rightarrow> Inl e | Inr i \<Rightarrow> Inr (i = 0))"

subsection \<open>\<open>_proposal_hash\<close>\<close>

text \<open>
  The dict literal in the order the source writes it, serialised with sorted keys and
  compact separators, hashed, and cut to the first 16 hexadecimal digits. The four
  numbers go through \<open>int\<close>, which can raise.
\<close>

definition proposal_canonical :: "string \<Rightarrow> string \<Rightarrow> int \<Rightarrow> int \<Rightarrow> int \<Rightarrow> int \<Rightarrow> string" where
  "proposal_canonical buyer_addr seller_addr offer_asa offer_amount want_asa want_amount =
     json_dumps True (JObj [
       (''buyer'', JStr buyer_addr),
       (''seller'', JStr seller_addr),
       (''offer_asa'', JInt offer_asa),
       (''offer_amount'', JInt offer_amount),
       (''want_asa'', JInt want_asa),
       (''want_amount'', JInt want_amount)])"

definition proposal_hash ::
  "lib \<Rightarrow> string \<Rightarrow> string \<Rightarrow> json \<Rightarrow> json \<Rightarrow> json \<Rightarrow> json \<Rightarrow> py_exn + string"
where
  "proposal_hash L buyer_addr seller_addr offer_asa offer_amount want_asa want_amount =
     (case py_int (int_of_str L) offer_asa of Inl e \<Rightarrow> Inl e | Inr oa \<Rightarrow>
      case py_int (int_of_str L) offer_amount of Inl e \<Rightarrow> Inl e | Inr om \<Rightarrow>
      case py_int (int_of_str L) want_asa of Inl e \<Rightarrow> Inl e | Inr wa \<Rightarrow>
      case py_int (int_of_str L) want_amount of Inl e \<Rightarrow> Inl e | Inr wm \<Rightarrow>
        Inr (take 16 (bytes_hex (sha256 L (encode_ascii
               (proposal_canonical buyer_addr seller_addr oa om wa wm))))))"

subsection \<open>\<open>tool_wait_for_message\<close>\<close>

text \<open>
  What the loop body does with the first new message: mark it seen, fold its round into
  the watermark, update the session from the note, log, and return the note. \<open>int\<close> of a
  malformed \<open>app_id\<close> raises after the session has already been changed.
\<close>

definition swap_set_app_id :: "lib \<Rightarrow> (string \<times> json) list \<Rightarrow> swap_state \<Rightarrow> py_exn + swap_state" where
  "swap_set_app_id L note state =
     (if py_truthy (dict_get note ''app_id'' JNull) then
        (case py_int (int_of_str L) (dict_get note ''app_id'' JNull) of
           Inl e \<Rightarrow> Inl e
         | Inr i \<Rightarrow> Inr (state\<lparr>swap_app_id := i\<rparr>))
      else Inr state)"

definition swap_received :: "note_msg \<Rightarrow> swap_state \<Rightarrow> swap_state \<times> tool_result outcome" where
  "swap_received msg state =
     (let msg_type = dict_get (msg_note msg) ''type'' (JStr []) in
      (record_action (Msg ''Received {} (round {})'' [msg_type, JInt (msg_round msg)]) state,
       Return (Ok [(''type'', msg_type), (''note'', JObj (msg_note msg)),
                   (''round'', JInt (msg_round msg)), (''sender'', JStr (msg_sender msg))])))"

definition swap_process_message :: "lib \<Rightarrow> note_msg \<Rightarrow> swap_state \<Rightarrow> swap_state \<times> tool_result outcome" where
  "swap_process_message L msg state =
     (let note = msg_note msg;
          msg_type = dict_get note ''type'' (JStr []);
          state1 = state\<lparr>seen_txids := seen_txids state @ [msg_txid msg],
                          last_seen_round := max (last_seen_round state) (msg_round msg)\<rparr>
      in if msg_type = JStr ''swap_propose'' then
           (let state2 = state1\<lparr>peer_asa_id := dict_get note ''offer_asa'' (peer_asa_id state1),
                                  peer_asa_amount := dict_get note ''offer_amount'' (peer_asa_amount state1)\<rparr>
            in case swap_set_app_id L note state2 of
                 Inl e \<Rightarrow> (state2, Raise e)
               | Inr state3 \<Rightarrow> swap_received msg (state3\<lparr>status := ''propose_received''\<rparr>))
         else if msg_type = JStr ''swap_partial'' then
           (case swap_set_app_id L note state1 of
              Inl e \<Rightarrow> (state1, Raise e)
            | Inr state3 \<Rightarrow> swap_received msg (state3\<lparr>status := ''partial_received''\<rparr>))
         else swap_received msg state1)"

text \<open>
  The polling loop. \<open>polls\<close> lists the indexer as it answers at each successive poll made
  before the deadline; when the list is used up the deadline has passed. \<open>seen\<close> is the
  local set made from \<open>state.seen_txids\<close>.
\<close>

fun swap_wait_loop ::
  "lib \<Rightarrow> int \<Rightarrow> swap_state \<Rightarrow> string set \<Rightarrow> indexer list \<Rightarrow> swap_state \<times> tool_result outcome"
where
  "swap_wait_loop L timeout state seen [] =
     (record_action (Msg ''wait_for_message timed out'' []) state,
      Return (Error (Msg ''No incoming swap message within {}s'' [JInt timeout])))"
| "swap_wait_loop L timeout state seen (idx # polls) =
     (case poll_messages L idx ''swap_'' (my_address state) (last_seen_round state) seen of
        [] \<Rightarrow> swap_wait_loop L timeout state seen polls
      | msg # _ \<Rightarrow> swap_process_message L msg state)"

definition swap_wait_for_message ::
  "lib \<Rightarrow> indexer list \<Rightarrow> swap_state \<Rightarrow> int \<Rightarrow> swap_state \<times> tool_result outcome"
where
  "swap_wait_for_message L polls state timeout =
     swap_wait_loop L timeout state (set (seen_txids state)) polls"

subsection \<open>\<open>tool_send_note\<close>\<close>

text \<open>
  The note is serialised as the caller's dict stands, in its own key order. The
  effects list what was handed to the signer and to the ledger.
\<close>

definition swap_note_status :: "json \<Rightarrow> swap_state \<Rightarrow> swap_state" where
  "swap_note_status msg_type state =
     (if msg_type = JStr ''swap_propose'' then state\<lparr>status := ''propose_sent''\<rparr>
      else if msg_type = JStr ''swap_partial'' then state\<lparr>status := ''partial_sent''\<rparr>
      else state)"

definition swap_send_note ::
  "lib \<Rightarrow> env \<Rightarrow> swap_state \<Rightarrow> string \<Rightarrow> string \<Rightarrow> json \<Rightarrow>
   swap_state \<times> effect list \<times> tool_result outcome"
where
  "swap_send_note L E state sender receiver note_json =
     (if sender \<noteq> my_address state then
        (state, [], Return (Error (Msg ''sender must be your address ({}), got {}''
                                    [JStr (my_address state), JStr sender])))
      else if receiver \<noteq> peer_address state then
        (state, [], Return (Error (Msg ''receiver must be peer address ({}), got {}''
                                    [JStr (peer_address state), JStr receiver])))
      else case algod_suggested_params E of
        Inl e \<Rightarrow> (state, [], Raise e)
      | Inr sp \<Rightarrow>
          (let note_bytes = encode_ascii (json_dumps False note_json) in
           if length note_bytes > 1024 then
             (state, [], Return (Error (Msg ''Note exceeds 1024 bytes ({})''
                                         [JInt (int (length note_bytes))])))
           else
             (let t = PaymentTxn sender sp receiver 0 note_bytes None;
                  call = SignCall [Some t] [Some sender] []
              in case signer_sign_transaction L E t None [] of
                   Inl e \<Rightarrow> (state, [call], Raise e)
                 | Inr signed_txn \<Rightarrow>
                     (case submit_and_confirm E signed_txn of
                        (effs, Inl e) \<Rightarrow> (state, call # effs, Raise e)
                      | (effs, Inr txid) \<Rightarrow>
                          (let msg_type = (case note_json of
                                             JObj kvs \<Rightarrow> dict_get kvs ''type'' (JStr ''?'')
                                           | _ \<Rightarrow> JStr ''?'')
                           in (swap_note_status msg_type
                                 (record_action (Msg ''Sent note ({}) txid: {}'' [msg_type, JStr txid]) state),
                               call # effs,
                               Return (Ok [(''txid'', JStr txid)])))))))"

subsection \<open>\<open>tool_verify_and_submit_swap\<close>\<close>

text \<open>
  The planned transactions: each entry is hexadecimal text of \<open>b"TX"\<close> followed by the
  msgpack bytes, which the ledger SDK decodes (\<open>LedgerError\<close> when it cannot).
\<close>

fun decode_planned :: "lib \<Rightarrow> json list \<Rightarrow> py_exn + txn list" where
  "decode_planned L [] = Inr []"
| "decode_planned L (h # hs) =
     (case h of
        JStr hex_str \<Rightarrow>
          (case fromhex L hex_str of
             None \<Rightarrow> Inl ValueError
           | Some txn_bytes \<Rightarrow>
               (case msgpack_decode L (b64_encode L (drop 2 txn_bytes)) of
                  None \<Rightarrow> Inl LedgerError
                | Some t \<Rightarrow>
                    (case decode_planned L hs of
                       Inl e \<Rightarrow> Inl e
                     | Inr ts \<Rightarrow> Inr (t # ts))))
      | _ \<Rightarrow> Inl TypeError)"

text \<open>
  The field checks of one leg, written twice in the source (for \<open>TxnA\<close> against the
  session's own asset and amount, for \<open>TxnB\<close> against the peer's). They give the list of
  mismatches; reading \<open>receiver\<close> of a transaction without one, or \<open>int\<close> of a malformed
  asset id, raises.
\<close>

definition verify_leg ::
  "lib \<Rightarrow> string \<Rightarrow> txn \<Rightarrow> string \<Rightarrow> string \<Rightarrow> json \<Rightarrow> json \<Rightarrow> py_exn + message list"
where
  "verify_leg L label t exp_sender exp_receiver asa_id amount =
     (let sender_errors =
            (if txn_sender t \<noteq> exp_sender
             then [Msg (label @ '' sender mismatch: {} != {}'') [JStr (txn_sender t), JStr exp_sender]]
             else [])
      in case txn_receiver t of
        None \<Rightarrow> Inl AttributeError
      | Some receiver \<Rightarrow>
          (let receiver_errors =
                 (if receiver \<noteq> exp_receiver
                  then [Msg (label @ '' receiver mismatch: {} != {}'') [JStr receiver, JStr exp_receiver]]
                  else [])
           in case is_algo L asa_id of
             Inl e \<Rightarrow> Inl e
           | Inr algo \<Rightarrow>
               Inr (sender_errors @ receiver_errors @
                 (if algo then
                    (case t of
                       PaymentTxn sender sp rcv amt note close_to \<Rightarrow>
                         (if \<not> py_eq_int amt amount
                          then [Msg (label @ '' amount mismatch: {} != {}'') [JInt amt, amount]]
                          else [])
                     | _ \<Rightarrow> [Msg (label @ '' expected PaymentTxn, got {}'') []])
                  else
                    (case t of
                       AssetTransferTxn sender sp rcv amt index close_to \<Rightarrow>
                         (if \<not> py_eq_int index asa_id
                          then [Msg (label @ '' ASA mismatch: {} != {}'') [JInt index, asa_id]]
                          else []) @
                         (if \<not> py_eq_int amt amount
                          then [Msg (label @ '' amount mismatch: {} != {}'') [JInt amt, amount]]
                          else [])
                     | _ \<Rightarrow> [Msg (label @ '' expected AssetTransferTxn, got {}'') []])))))"

definition verify_legs :: "lib \<Rightarrow> swap_state \<Rightarrow> txn list \<Rightarrow> py_exn + message list" where
  "verify_legs L state finalized_txns =
     (case finalized_txns of
        [] \<Rightarrow> Inl IndexError
      | txn_a # others \<Rightarrow>
          (case verify_leg L ''TxnA'' txn_a (my_address state) (peer_address state)
                  (JInt (my_asa_id state)) (JInt (my_asa_amount state)) of
             Inl e \<Rightarrow> Inl e
           | Inr errors_a \<Rightarrow>
               (case others of
                  [] \<Rightarrow> Inr (errors_a @ [Msg ''Group has fewer than 2 transactions'' []])
                | txn_b # _ \<Rightarrow>
                    (case verify_leg L ''TxnB'' txn_b (peer_address state) (my_address state)
                            (peer_asa_id state) (peer_asa_amount state) of
                       Inl e \<Rightarrow> Inl e
                     | Inr errors_b \<Rightarrow> Inr (errors_a @ errors_b)))))"

text \<open>
  \<open>assemble_group\<close> as Python runs it in this call. \<open>seller_signed\<close> is whatever the
  exchange object holds under \<open>"signed"\<close>, so the steps of \<open>assemble_group\<close> are taken
  on JSON values: \<open>len(sl)\<close> raises \<open>TypeError\<close> on a value without a length,
  \<open>sl[idx]\<close> is an element of a list, a character of a string and a \<open>KeyError\<close> on a
  dict, an entry counts when it is truthy (so \<open>null\<close> is an unsigned slot like \<open>""\<close>), and
  \<open>base64.b64decode\<close> raises \<open>TypeError\<close> on an entry that is not a string. Every
  \<open>ValueError\<close> of \<open>assemble_group\<close> is \<open>ValueError\<close> here.
\<close>

fun py_index :: "json \<Rightarrow> nat \<Rightarrow> py_exn + json" where
  "py_index (JArr xs) idx = (if idx < length xs then Inr (xs ! idx) else Inl IndexError)"
| "py_index (JStr s) idx = (if idx < length s then Inr (JStr [s ! idx]) else Inl IndexError)"
| "py_index (JObj kvs) idx = Inl KeyError"
| "py_index _ idx = Inl TypeError"

fun check_lengths_json :: "nat \<Rightarrow> json list \<Rightarrow> py_exn option" where
  "check_lengths_json group_len [] = None"
| "check_lengths_json group_len (sl # rest) =
     (case py_len sl of
        None \<Rightarrow> Some TypeError
      | Some n \<Rightarrow> if n \<noteq> group_len then Some ValueError else check_lengths_json group_len rest)"

fun entries_at_json :: "json list \<Rightarrow> nat \<Rightarrow> py_exn + json list" where
  "entries_at_json [] idx = Inr []"
| "entries_at_json (sl # rest) idx =
     (case py_index sl idx of
        Inl e \<Rightarrow> Inl e
      | Inr entry \<Rightarrow>
          (case entries_at_json rest idx of
             Inl e \<Rightarrow> Inl e
           | Inr entries \<Rightarrow> Inr (if py_truthy entry then entry # entries else entries)))"

fun merge_slots_json :: "json list \<Rightarrow> nat list \<Rightarrow> py_exn + json list" where
  "merge_slots_json signed_lists [] = Inr []"
| "merge_slots_json signed_lists (idx # idxs) =
     (case entries_at_json signed_lists idx of
        Inl e \<Rightarrow> Inl e
      | Inr entries \<Rightarrow>
          (if length entries = 0 then Inl ValueError
           else if length entries > 1 then Inl ValueError
           else (case merge_slots_json signed_lists idxs of
                   Inl e \<Rightarrow> Inl e
                 | Inr merged \<Rightarrow> Inr (hd entries # merged))))"

fun decode_join_json :: "(string \<Rightarrow> bytes option) \<Rightarrow> json list \<Rightarrow> py_exn + bytes" where
  "decode_join_json dec [] = Inr []"
| "decode_join_json dec (entry # rest) =
     (case entry of
        JStr s \<Rightarrow>
          (case dec s of
             None \<Rightarrow> Inl BinasciiError
           | Some b \<Rightarrow>
               (case decode_join_json dec rest of
                  Inl e \<Rightarrow> Inl e
                | Inr bs \<Rightarrow> Inr (b @ bs)))
      | _ \<Rightarrow> Inl TypeError)"

definition assemble_group_json ::
  "(string \<Rightarrow> bytes option) \<Rightarrow> (bytes \<Rightarrow> string) \<Rightarrow> json list \<Rightarrow> py_exn + string"
where
  "assemble_group_json dec enc signed_lists =
     (case signed_lists of
        [] \<Rightarrow> Inl ValueError
      | first # _ \<Rightarrow>
          (case py_len first of
             None \<Rightarrow> Inl TypeError
           | Some group_len \<Rightarrow>
               (case check_lengths_json group_len signed_lists of
                  Some e \<Rightarrow> Inl e
                | None \<Rightarrow>
                    (case merge_slots_json signed_lists [0..<group_len] of
                       Inl e \<Rightarrow> Inl e
                     | Inr merged \<Rightarrow>
                         (case decode_join_json dec merged of
                            Inl e \<Rightarrow> Inl e
                          | Inr all_bytes \<Rightarrow> Inr (enc all_bytes))))))"

text \<open>The second half: sign the buyer's leg, merge both partial sets, submit, mark the session submitted.\<close>

definition sign_assemble_submit ::
  "lib \<Rightarrow> env \<Rightarrow> swap_state \<Rightarrow> txn list \<Rightarrow> json \<Rightarrow> swap_state \<times> effect list \<times> tool_result outcome"
where
  "sign_assemble_submit L E state finalized_txns seller_signed =
     (let auth_addresses = Some (my_address state) # replicate (length finalized_txns - 1) None;
          call = SignCall (map Some finalized_txns) auth_addresses []
      in case signer_sign_transactions_list L E (map Some finalized_txns) (Some auth_addresses) of
        Inl e \<Rightarrow> (state, [call], Raise e)
      | Inr buyer_signed \<Rightarrow>
          (case assemble_group_json (b64_decode L) (b64_encode L)
                  [seller_signed, JArr (map JStr buyer_signed)] of
             Inl e \<Rightarrow> (state, [call], Raise e)
           | Inr combined \<Rightarrow>
               (case submit_and_confirm E combined of
                  (effs, Inl e) \<Rightarrow> (state, call # effs, Raise e)
                | (effs, Inr txid) \<Rightarrow>
                    (record_action (Msg ''Submitted atomic group (txid: {})'' [JStr txid])
                       (state\<lparr>group_txid := txid, status := ''submitted''\<rparr>),
                     call # effs,
                     Return (Ok [(''txid'', JStr txid)])))))"

text \<open>
  What follows the hash check: decode the planned group, verify both legs field by
  field, and go on to sign only when no mismatch was found.
\<close>

definition verify_then_submit ::
  "lib \<Rightarrow> env \<Rightarrow> swap_state \<Rightarrow> json \<Rightarrow> json \<Rightarrow> swap_state \<times> effect list \<times> tool_result outcome"
where
  "verify_then_submit L E state planned_txns_hex seller_signed =
     (case py_iter planned_txns_hex of
        None \<Rightarrow> (state, [], Raise TypeError)
      | Some hexes \<Rightarrow>
          (case decode_planned L hexes of
             Inl e \<Rightarrow> (state, [], Raise e)
           | Inr finalized_txns \<Rightarrow>
               (case verify_legs L state finalized_txns of
                  Inl e \<Rightarrow> (state, [], Raise e)
                | Inr errors \<Rightarrow>
                    (if errors \<noteq> [] then
                       (record_action (Joined ''Transaction verification failed: '' errors) state, [],
                        Return (Error (Joined ''Transaction verification failed: '' errors)))
                     else
                       sign_assemble_submit L E
                         (record_action (Msg ''Verified TxnA and TxnB fields match proposal'' []) state)
                         finalized_txns seller_signed))))"

text \<open>
  The tool: recompute the hash from the session's own terms, read the exchange object
  named by it, and compare the object's \<open>proposal_hash\<close> before anything else is done
  with the object.
\<close>

definition swap_verify_and_submit_swap ::
  "lib \<Rightarrow> env \<Rightarrow> swap_state \<Rightarrow> swap_state \<times> effect list \<times> tool_result outcome"
where
  "swap_verify_and_submit_swap L E state =
     (case proposal_hash L (my_address state) (peer_address state)
             (JInt (my_asa_id state)) (JInt (my_asa_amount state))
             (peer_asa_id state) (peer_asa_amount state) of
        Inl e \<Rightarrow> (state, [], Raise e)
      | Inr expected_hash \<Rightarrow>
          (case read_box L E (swap_app_id state) (encode_ascii expected_hash) of
             Inl e \<Rightarrow> (state, [], Raise e)
           | Inr raw \<Rightarrow>
               (case json_loads L raw of
                  None \<Rightarrow> (state, [], Raise JSONDecodeError)
                | Some exchange_data \<Rightarrow>
                    (case py_item exchange_data ''planned_txns_hex'' of
                       Inl e \<Rightarrow> (state, [], Raise e)
                     | Inr planned_txns_hex \<Rightarrow>
                         (case py_item exchange_data ''signed'' of
                            Inl e \<Rightarrow> (state, [], Raise e)
                          | Inr seller_signed \<Rightarrow>
                              (case py_get exchange_data ''proposal_hash'' (JStr []) of
                                 None \<Rightarrow> (state, [], Raise AttributeError)
                               | Some file_hash \<Rightarrow>
                                   (if file_hash \<noteq> JStr expected_hash then
                                      (record_action (Msg ''Proposal hash mismatch: box={}, expected={}''
                                                        [file_hash, JStr expected_hash]) state,
                                       [],
                                       Return (Error (Msg ''Proposal hash mismatch: box={}, expected={}''
                                                        [file_hash, JStr expected_hash])))
                                    else verify_then_submit L E state planned_txns_hex seller_signed)))))))"

section \<open>The hash-time-locked swap: \<open>examples/htlc/tools.py\<close>\<close>

record htlc_state = "int session" +
  preimage :: string
  hash :: string
  my_hashlock :: string
  peer_hashlock :: string
  my_timeout :: int
  peer_timeout :: int
  fund_algo_amount :: int
  claim_txid :: string

text \<open>\<open>_is_valid_address\<close>: a non-empty string that the ledger SDK accepts; anything else is not an address.\<close>

definition valid_address :: "lib \<Rightarrow> json \<Rightarrow> bool" where
  "valid_address L addr = (case addr of JStr a \<Rightarrow> a \<noteq> [] \<and> is_valid_address L a | _ \<Rightarrow> False)"

text \<open>\<open>hashlib.sha256(b).hexdigest()\<close>.\<close>

definition sha256_hexdigest :: "lib \<Rightarrow> bytes \<Rightarrow> string" where
  "sha256_hexdigest L b = bytes_hex (sha256 L b)"

subsection \<open>\<open>tool_create_hashlock\<close>\<close>

text \<open>
  The arguments come from the caller as JSON values. Every check returns an error dict
  before the signer is asked for a key; only \<open>int(timeout_round)\<close> can raise.
\<close>

definition create_hashlock ::
  "lib \<Rightarrow> env \<Rightarrow> htlc_state \<Rightarrow> json \<Rightarrow> json \<Rightarrow> json \<Rightarrow> json \<Rightarrow>
   htlc_state \<times> effect list \<times> tool_result outcome"
where
  "create_hashlock L E state hash_hex recipient refund_address timeout_round_arg =
     (if recipient \<noteq> JStr (peer_address state) then
        (state, [], Return (Error (Msg ''recipient must be peer address ({}), got {}''
                                    [JStr (peer_address state), recipient])))
      else if refund_address \<noteq> JStr (my_address state) then
        (state, [], Return (Error (Msg ''refund_address must be your address ({}), got {}''
                                    [JStr (my_address state), refund_address])))
      else case hash_hex of
        JStr h \<Rightarrow>
          (if length h \<noteq> 64 then
             (state, [], Return (Error (Msg ''hash_hex must be a 64-character hex string'' [])))
           else if fromhex L h = None then
             (state, [], Return (Error (Msg ''hash_hex must be valid hex'' [])))
           else case py_int (int_of_str L) timeout_round_arg of
             Inl e \<Rightarrow> (state, [], Raise e)
           | Inr timeout_round \<Rightarrow>
               (if timeout_round \<le> 0 then
                  (state, [], Return (Error (Msg ''timeout_round must be > 0, got {}'' [JInt timeout_round])))
                else if role state = ''seller'' \<and> peer_timeout state \<noteq> 0
                        \<and> timeout_round \<ge> peer_timeout state then
                  (state, [],
                   Return (Error (Msg ''seller timeout must be shorter than buyer timeout: {} >= {}''
                                    [JInt timeout_round, JInt (peer_timeout state)])))
                else
                  (let parameters = [(''hash'', h), (''recipient'', peer_address state),
                                     (''refund_address'', my_address state),
                                     (''timeout_round'', show_int timeout_round)];
                       call = GenerateKeyCall ''hashlock-v1'' parameters
                   in case signer_generate_key E ''hashlock-v1'' parameters of
                        Inl e \<Rightarrow> (state, [call], Raise e)
                      | Inr address \<Rightarrow>
                          (record_action (Msg ''Created hashlock: {}'' [JStr address])
                             (state\<lparr>my_hashlock := address, my_timeout := timeout_round, hash := h\<rparr>),
                           [call],
                           Return (Ok [(''address'', JStr address)])))))
      | _ \<Rightarrow> (state, [], Return (Error (Msg ''hash_hex must be a 64-character hex string'' []))))"

subsection \<open>\<open>tool_send_note\<close>\<close>

text \<open>
  The note must be a dict. When it has a \<open>type\<close> key it is rebuilt with \<open>type\<close> first and
  the other keys after it in their own order, and then serialised.
\<close>

definition canonicalize_note :: "(string \<times> json) list \<Rightarrow> (string \<times> json) list" where
  "canonicalize_note note_json =
     (case map_of note_json ''type'' of
        None \<Rightarrow> note_json
      | Some ty \<Rightarrow> (''type'', ty) # filter (\<lambda>(k, v). k \<noteq> ''type'') note_json)"

definition htlc_note_status :: "json \<Rightarrow> htlc_state \<Rightarrow> htlc_state" where
  "htlc_note_status msg_type state =
     (if msg_type = JStr ''htlc_offer'' then state\<lparr>status := ''offer_sent''\<rparr>
      else if msg_type = JStr ''htlc_accept'' then state\<lparr>status := ''accept_sent''\<rparr>
      else state)"

definition htlc_send_note ::
  "lib \<Rightarrow> env \<Rightarrow> htlc_state \<Rightarrow> string \<Rightarrow> string \<Rightarrow> json \<Rightarrow>
   htlc_state \<times> effect list \<times> tool_result outcome"
where
  "htlc_send_note L E state sender receiver note_arg =
     (if sender \<noteq> my_address state then
        (state, [], Return (Error (Msg ''sender must be your address ({}), got {}''
                                    [JStr (my_address state), JStr sender])))
      else if receiver \<noteq> peer_address state then
        (state, [], Return (Error (Msg ''receiver must be peer address ({}), got {}''
                                    [JStr (peer_address state), JStr receiver])))
      else case note_arg of
        JObj given \<Rightarrow>
          (let note_json = canonicalize_note given in
           case algod_suggested_params E of
             Inl e \<Rightarrow> (state, [], Raise e)
           | Inr sp \<Rightarrow>
               (let note_bytes = encode_ascii (json_dumps False (JObj note_json)) in
                if length note_bytes > 1024 then
                  (state, [], Return (Error (Msg ''Note exceeds 1024 bytes'' [])))
                else
                  (let t = PaymentTxn sender sp receiver 0 note_bytes None;
                       call = SignCall [Some t] [Some sender] []
                   in case signer_sign_transaction L E t None [] of
                        Inl e \<Rightarrow> (state, [call], Raise e)
                      | Inr signed_txn \<Rightarrow>
                          (case submit_and_confirm E signed_txn of
                             (effs, Inl e) \<Rightarrow> (state, call # effs, Raise e)
                           | (effs, Inr txid) \<Rightarrow>
                               (let msg_type = dict_get note_json ''type'' (JStr ''?'')
                                in (htlc_note_status msg_type
                                      (record_action (Msg ''Sent note ({}) txid: {}'' [msg_type, JStr txid]) state),
                                    call # effs,
                                    Return (Ok [(''txid'', JStr txid)])))))))
      | _ \<Rightarrow> (state, [], Return (Error (Msg ''note_json must be an object'' []))))"

subsection \<open>\<open>tool_claim_hashlock_asa\<close>\<close>

text \<open>
  A claim from the peer's lock. The preimage is checked against the session's hash
  (when the session holds one) before any transaction is built or signed. The claim
  closes the whole balance of the lock to the recipient.
\<close>

definition claim_hashlock_asa ::
  "lib \<Rightarrow> env \<Rightarrow> htlc_state \<Rightarrow> string \<Rightarrow> string \<Rightarrow> json \<Rightarrow> json \<Rightarrow>
   htlc_state \<times> effect list \<times> tool_result outcome"
where
  "claim_hashlock_asa L E state hashlock_address recipient preimage_hex asa_id =
     (if peer_hashlock state = [] then
        (state, [], Return (Error (Msg ''No peer_hashlock in state - cannot claim'' [])))
      else if hashlock_address \<noteq> peer_hashlock state then
        (state, [], Return (Error (Msg ''hashlock_address must be peer_hashlock ({}), got {}''
                                    [JStr (peer_hashlock state), JStr hashlock_address])))
      else if recipient \<noteq> my_address state then
        (state, [], Return (Error (Msg ''recipient must be your address ({}), got {}''
                                    [JStr (my_address state), JStr recipient])))
      else case py_int (int_of_str L) asa_id of
        Inl e \<Rightarrow> (state, [], Raise e)
      | Inr asa \<Rightarrow>
          (if asa \<noteq> 0 \<and> asa \<noteq> peer_asa_id state then
             (state, [], Return (Error (Msg ''asa_id mismatch: {} != state.peer_asa_id {}''
                                         [asa_id, JInt (peer_asa_id state)])))
           else case preimage_hex of
             JStr p \<Rightarrow>
               (if length p \<noteq> 64 then
                  (state, [], Return (Error (Msg ''preimage_hex must be a 64-character hex string'' [])))
                else case fromhex L p of
                  None \<Rightarrow> (state, [], Return (Error (Msg ''preimage_hex must be valid hex'' [])))
                | Some preimage_bytes \<Rightarrow>
                    (if hash state \<noteq> [] \<and> sha256_hexdigest L preimage_bytes \<noteq> hash state then
                       (state, [], Return (Error (Msg ''preimage_hex does not match expected hash in state'' [])))
                     else case algod_suggested_params E of
                       Inl e \<Rightarrow> (state, [], Raise e)
                     | Inr sp \<Rightarrow>
                         (let t = (if asa = 0
                                   then PaymentTxn hashlock_address sp recipient 0 [] (Some recipient)
                                   else AssetTransferTxn hashlock_address sp recipient 0 asa (Some recipient));
                              lsig_args = [(''preimage'', preimage_bytes)];
                              call = SignCall [Some t] [Some hashlock_address] [(hashlock_address, lsig_args)]
                          in case signer_sign_transaction L E t (Some hashlock_address) lsig_args of
                               Inl e \<Rightarrow> (state, [call], Raise e)
                             | Inr signed_txn \<Rightarrow>
                                 (case submit_and_confirm E signed_txn of
                                    (effs, Inl e) \<Rightarrow> (state, call # effs, Raise e)
                                  | (effs, Inr txid) \<Rightarrow>
                                      (record_action (Msg ''Claimed {} from {} (txid: {})''
                                                        [asa_id, JStr hashlock_address, JStr txid])
                                         (state\<lparr>claim_txid := txid\<rparr>),
                                       call # effs,
                                       Return (Ok [(''txid'', JStr txid)]))))))
           | _ \<Rightarrow> (state, [], Return (Error (Msg ''preimage_hex must be a 64-character hex string'' [])))))"

subsection \<open>\<open>_poll_hashlock_claim\<close> and \<open>tool_wait_for_preimage\<close>\<close>

text \<open>
  The claim poll asks for transactions sent from the lock address and takes the first
  one that carries logic-signature arguments; its first argument, decoded, is the
  preimage. A first argument that does not decode ends the poll without a result.
\<close>

fun first_claim :: "lib \<Rightarrow> idx_txn list \<Rightarrow> (string \<times> string \<times> int) option" where
  "first_claim L [] = None"
| "first_claim L (t # ts) =
     (case tx_lsig_args t of
        [] \<Rightarrow> first_claim L ts
      | arg # _ \<Rightarrow>
          (case b64_decode L arg of
             None \<Rightarrow> None
           | Some preimage_bytes \<Rightarrow> Some (bytes_hex preimage_bytes, tx_id t, tx_confirmed_round t)))"

definition poll_hashlock_claim ::
  "lib \<Rightarrow> indexer \<Rightarrow> string \<Rightarrow> int \<Rightarrow> (string \<times> string \<times> int) option"
where
  "poll_hashlock_claim L idx hashlock_address min_round =
     (case idx \<lparr>q_address = hashlock_address, q_address_role = ''sender'', q_tx_type = None,
                 q_note_prefix = None, q_min_round = Some min_round, q_asset_id = None\<rparr> of
        None \<Rightarrow> None
      | Some txns \<Rightarrow> first_claim L txns)"

fun preimage_wait_loop ::
  "lib \<Rightarrow> int \<Rightarrow> htlc_state \<Rightarrow> indexer list \<Rightarrow> htlc_state \<times> tool_result outcome"
where
  "preimage_wait_loop L timeout state [] =
     (record_action (Msg ''wait_for_preimage timed out'' []) state,
      Return (Error (Msg ''No preimage discovered within {}s'' [JInt timeout])))"
| "preimage_wait_loop L timeout state (idx # polls) =
     (case poll_hashlock_claim L idx (my_hashlock state) (last_seen_round state) of
        None \<Rightarrow> preimage_wait_loop L timeout state polls
      | Some (claim_preimage, claim_id, claim_round) \<Rightarrow>
          (record_action (Msg ''Discovered preimage on-chain (txid: {})'' [JStr claim_id])
             (state\<lparr>last_seen_round := max (last_seen_round state) claim_round,
                     preimage := claim_preimage,
                     status := ''preimage_discovered''\<rparr>),
           Return (Ok [(''preimage'', JStr claim_preimage), (''claim_txid'', JStr claim_id),
                       (''round'', JInt claim_round)])))"

definition wait_for_preimage ::
  "lib \<Rightarrow> indexer list \<Rightarrow> htlc_state \<Rightarrow> int \<Rightarrow> htlc_state \<times> tool_result outcome"
where
  "wait_for_preimage L polls state timeout =
     (if my_hashlock state = [] then
        (state, Return (Error (Msg ''No my_hashlock in state - cannot poll for preimage'' [])))
      else preimage_wait_loop L timeout state polls)"

subsection \<open>\<open>tool_wait_for_message\<close>\<close>

text \<open>
  The three numbers of an offer or accept note, converted with \<open>int\<close> in the order of
  the source; a field that is missing takes the default of its \<open>.get\<close>.
\<close>

definition note_numbers :: "lib \<Rightarrow> (string \<times> json) list \<Rightarrow> py_exn + (int \<times> int \<times> int)" where
  "note_numbers L note =
     (case py_int (int_of_str L) (dict_get note ''timeout_round'' (JInt 0)) of
        Inl e \<Rightarrow> Inl e
      | Inr note_timeout \<Rightarrow>
          (case py_int (int_of_str L) (dict_get note ''asa_id'' (JInt (- 1))) of
             Inl e \<Rightarrow> Inl e
           | Inr note_asa_id \<Rightarrow>
               (case py_int (int_of_str L) (dict_get note ''asa_amount'' (JInt (- 1))) of
                  Inl e \<Rightarrow> Inl e
                | Inr note_asa_amount \<Rightarrow> Inr (note_timeout, note_asa_id, note_asa_amount))))"

definition htlc_received :: "note_msg \<Rightarrow> htlc_state \<Rightarrow> htlc_state \<times> tool_result outcome" where
  "htlc_received msg state =
     (let msg_type = dict_get (msg_note msg) ''type'' (JStr []) in
      (record_action (Msg ''Received {} (round {})'' [msg_type, JInt (msg_round msg)]) state,
       Return (Ok [(''type'', msg_type), (''note'', JObj (msg_note msg)),
                   (''round'', JInt (msg_round msg)), (''sender'', JStr (msg_sender msg))])))"

text \<open>The checks shared by both note types, after the type-specific ones: the asset id and the amount must be the ones the session expects.\<close>

definition asset_checks :: "string \<Rightarrow> htlc_state \<Rightarrow> int \<Rightarrow> int \<Rightarrow> message option" where
  "asset_checks kind state note_asa_id note_asa_amount =
     (if note_asa_id \<noteq> peer_asa_id state then
        Some (Msg (''Invalid '' @ kind @ '': asa_id mismatch {} != expected {}'')
                [JInt note_asa_id, JInt (peer_asa_id state)])
      else if note_asa_amount \<noteq> peer_asa_amount state then
        Some (Msg (''Invalid '' @ kind @ '': asa_amount mismatch {} != expected {}'')
                [JInt note_asa_amount, JInt (peer_asa_amount state)])
      else None)"

definition handle_offer :: "lib \<Rightarrow> note_msg \<Rightarrow> htlc_state \<Rightarrow> htlc_state \<times> tool_result outcome" where
  "handle_offer L msg state =
     (let note = msg_note msg;
          note_hash = dict_get note ''hash'' (JStr []);
          note_hashlock = dict_get note ''hashlock_addr'' (JStr [])
      in case note_numbers L note of
        Inl e \<Rightarrow> (state, Raise e)
      | Inr (note_timeout, note_asa_id, note_asa_amount) \<Rightarrow>
          (case py_len note_hash of
             None \<Rightarrow> (state, Raise TypeError)
           | Some n \<Rightarrow>
               (if n \<noteq> 64 then
                  (state, Return (Error (Msg ''Invalid htlc_offer: hash must be 64 hex chars'' [])))
                else case note_hash of
                  JStr h \<Rightarrow>
                    (if fromhex L h = None then
                       (state, Return (Error (Msg ''Invalid htlc_offer: hash must be valid hex'' [])))
                     else if \<not> valid_address L note_hashlock then
                       (state, Return (Error (Msg ''Invalid htlc_offer: hashlock_addr is not a valid Algorand address'' [])))
                     else if note_timeout \<le> 0 then
                       (state, Return (Error (Msg ''Invalid htlc_offer: timeout_round must be > 0'' [])))
                     else case asset_checks ''htlc_offer'' state note_asa_id note_asa_amount of
                       Some m \<Rightarrow> (state, Return (Error m))
                     | None \<Rightarrow>
                         htlc_received msg
                           (state\<lparr>hash := h,
                                   peer_hashlock := (case note_hashlock of JStr a \<Rightarrow> a | _ \<Rightarrow> []),
                                   peer_timeout := note_timeout,
                                   peer_asa_id := note_asa_id,
                                   peer_asa_amount := note_asa_amount,
                                   status := ''offer_received''\<rparr>))
                | _ \<Rightarrow> (state, Raise TypeError))))"

definition handle_accept :: "lib \<Rightarrow> note_msg \<Rightarrow> htlc_state \<Rightarrow> htlc_state \<times> tool_result outcome" where
  "handle_accept L msg state =
     (let note = msg_note msg;
          note_hashlock = dict_get note ''hashlock_addr'' (JStr [])
      in case note_numbers L note of
        Inl e \<Rightarrow> (state, Raise e)
      | Inr (note_timeout, note_asa_id, note_asa_amount) \<Rightarrow>
          (if \<not> valid_address L note_hashlock then
             (state, Return (Error (Msg ''Invalid htlc_accept: hashlock_addr is not a valid Algorand address'' [])))
           else if note_timeout \<le> 0 then
             (state, Return (Error (Msg ''Invalid htlc_accept: timeout_round must be > 0'' [])))
           else if my_timeout state \<noteq> 0 \<and> note_timeout \<ge> my_timeout state then
             (state, Return (Error (Msg ''Unsafe htlc_accept: peer timeout must be shorter than ours ({} >= {})''
                                      [JInt note_timeout, JInt (my_timeout state)])))
           else case asset_checks ''htlc_accept'' state note_asa_id note_asa_amount of
             Some m \<Rightarrow> (state, Return (Error m))
           | None \<Rightarrow>
               htlc_received msg
                 (state\<lparr>peer_hashlock := (case note_hashlock of JStr a \<Rightarrow> a | _ \<Rightarrow> []),
                         peer_timeout := note_timeout,
                         peer_asa_id := note_asa_id,
                         peer_asa_amount := note_asa_amount,
                         status := ''accept_received''\<rparr>)))"

text \<open>Marking a message consumed: its id joins \<open>seen_txids\<close> and its round is folded into the watermark.\<close>

definition mark_seen :: "note_msg \<Rightarrow> htlc_state \<Rightarrow> htlc_state" where
  "mark_seen msg state =
     state\<lparr>seen_txids := seen_txids state @ [msg_txid msg],
            last_seen_round := max (last_seen_round state) (msg_round msg)\<rparr>"

definition htlc_process_message :: "lib \<Rightarrow> note_msg \<Rightarrow> htlc_state \<Rightarrow> htlc_state \<times> tool_result outcome" where
  "htlc_process_message L msg state =
     (let msg_type = dict_get (msg_note msg) ''type'' (JStr []);
          state1 = mark_seen msg state
      in if msg_type = JStr ''htlc_offer'' then handle_offer L msg state1
         else if msg_type = JStr ''htlc_accept'' then handle_accept L msg state1
         else (state1, Return (Error (Msg ''Unknown note type: {}'' [msg_type]))))"

text \<open>
  The polling loop. A first new message from anyone but the peer is logged, marked
  consumed, and the loop goes on to the next poll; a message from the peer is processed
  and ends the call.
\<close>

fun htlc_wait_loop ::
  "lib \<Rightarrow> int \<Rightarrow> htlc_state \<Rightarrow> string set \<Rightarrow> indexer list \<Rightarrow> htlc_state \<times> tool_result outcome"
where
  "htlc_wait_loop L timeout state seen [] =
     (record_action (Msg ''wait_for_message timed out'' []) state,
      Return (Error (Msg ''No incoming htlc message within {}s'' [JInt timeout])))"
| "htlc_wait_loop L timeout state seen (idx # polls) =
     (case poll_messages L idx ''htlc_'' (my_address state) (last_seen_round state) seen of
        [] \<Rightarrow> htlc_wait_loop L timeout state seen polls
      | msg # _ \<Rightarrow>
          (if msg_sender msg \<noteq> peer_address state then
             htlc_wait_loop L timeout
               (mark_seen msg
                  (record_action (Msg ''Ignored {} note from non-peer sender {}''
                                    [dict_get (msg_note msg) ''type'' (JStr []), JStr (msg_sender msg)])
                     state))
               (insert (msg_txid msg) seen) polls
           else htlc_process_message L msg state))"

definition htlc_wait_for_message ::
  "lib \<Rightarrow> indexer list \<Rightarrow> htlc_state \<Rightarrow> int \<Rightarrow> htlc_state \<times> tool_result outcome"
where
  "htlc_wait_for_message L polls state timeout =
     htlc_wait_loop L timeout state (set (seen_txids state)) polls"

section \<open>Auxiliary notions for the proofs\<close>





section \<open>Instances for concrete inputs\<close>






text \<open>A ledger node and a signer that accept everything: the signer signs every slot with the same bytes.\<close>

definition demo_params :: suggested_params where
  "demo_params = \<lparr>fee = 1000, min_fee = 1000, flat_fee = False\<rparr>"

definition sign_all_server :: server where
  "sign_all_server request_body =
     Response \<lparr>status_code = 200,
               body_json = Some (JObj [(''signed'', JArr (map (\<lambda>r. JStr ''41'') request_body))]),
               body_text = ''''\<rparr>"

definition demo_env :: "(bytes \<times> json) list \<Rightarrow> env" where
  "demo_env boxes =
     \<lparr>algod_suggested_params = Inr demo_params,
      algod_send_raw_transaction = (\<lambda>signed_txn. Inr ''TXID''),
      algod_wait_for_confirmation = (\<lambda>txid. None),
      algod_application_box_by_name =
        (\<lambda>app_id box_name. case map_of boxes box_name of None \<Rightarrow> Inl LedgerError | Some v \<Rightarrow> Inr v),
      signer_post_sign = sign_all_server,
      signer_generate_key = (\<lambda>key_type parameters. Inr ''HASHLOCK'')\<rparr>"


section \<open>Properties of the group assembler\<close>

lemma check_lengths_None:
  "check_lengths n i sls = None \<longleftrightarrow> (\<forall>sl \<in> set sls. length sl = n)"
  by (induction sls arbitrary: i) auto

lemma check_lengths_Some:
  "check_lengths n i sls = Some e \<Longrightarrow> \<exists>j a. e = LengthMismatch j a n \<and> a \<noteq> n"
  by (induction sls arbitrary: i) (auto split: if_splits)


lemma merge_slots_Cons:
  "merge_slots sls (idx # idxs) =
     (if length (entries_at sls idx) = 1 then
        (case merge_slots sls idxs of
           Inl e \<Rightarrow> Inl e
         | Inr m \<Rightarrow> Inr (hd (entries_at sls idx) # m))
      else if length (entries_at sls idx) = 0 then Inl (NoSigner idx)
      else Inl (MultipleSigners idx))"
proof (cases "entries_at sls idx")
  case Nil
  then show ?thesis by (simp add: Let_def)
next
  case (Cons x xs)
  then show ?thesis by (cases xs) (simp_all add: Let_def split: sum.splits)
qed

lemma merge_slots_Inr:
  "merge_slots sls idxs = Inr m \<longleftrightarrow>
     (\<forall>i \<in> set idxs. length (entries_at sls i) = 1) \<and> m = map (\<lambda>i. hd (entries_at sls i)) idxs"
proof (induction idxs arbitrary: m)
  case Nil
  then show ?case by auto
next
  case (Cons i idxs)
  show ?case
  proof (cases "length (entries_at sls i) = 1")
    case True
    show ?thesis
    proof (cases "merge_slots sls idxs")
      case (Inl e)
      with Cons.IH [of "map (\<lambda>i. hd (entries_at sls i)) idxs"]
      have "\<not> (\<forall>i \<in> set idxs. length (entries_at sls i) = 1)"
        by simp
      with Inl True show ?thesis by (simp add: merge_slots_Cons del: merge_slots.simps)
    next
      case (Inr m')
      with Cons.IH [of m'] True show ?thesis
        by (auto simp: merge_slots_Cons simp del: merge_slots.simps)
    qed
  next
    case False
    then show ?thesis by (simp add: merge_slots_Cons del: merge_slots.simps)
  qed
qed

lemma merge_slots_first_bad:
  assumes "\<forall>j \<in> set pre. length (entries_at sls j) = 1"
    and "length (entries_at sls i) \<noteq> 1"
  shows "merge_slots sls (pre @ i # post) =
           Inl (if length (entries_at sls i) = 0 then NoSigner i else MultipleSigners i)"
  using assms(1)
proof (induction pre)
  case Nil
  show ?case using assms(2) by (simp add: merge_slots_Cons del: merge_slots.simps)
next
  case (Cons a pre)
  then have "length (entries_at sls a) = 1"
    and "merge_slots sls (pre @ i # post) =
           Inl (if length (entries_at sls i) = 0 then NoSigner i else MultipleSigners i)"
    by auto
  then show ?case by (simp add: merge_slots_Cons del: merge_slots.simps)
qed

lemma decode_join_Some:
  "decode_join dec ss = Some b \<longleftrightarrow>
     (\<forall>s \<in> set ss. dec s \<noteq> None) \<and> b = concat (map (\<lambda>s. the (dec s)) ss)"
  by (induction ss arbitrary: b) (auto split: option.splits)

lemma assemble_group_success:
  assumes "sls \<noteq> []" and "\<forall>sl \<in> set sls. length sl = n"
  shows "assemble_group dec enc sls = Inr r \<longleftrightarrow>
           (\<forall>i < n. length (entries_at sls i) = 1) \<and>
           (\<forall>i < n. dec (hd (entries_at sls i)) \<noteq> None) \<and>
           r = enc (concat (map (\<lambda>i. the (dec (hd (entries_at sls i)))) [0..<n]))"
proof -
  from assms obtain first rest where sls: "sls = first # rest" by (cases sls) auto
  with assms have n: "length first = n" by simp
  have cl: "check_lengths n 0 sls = None" using assms by (simp add: check_lengths_None)
  show ?thesis
  proof (cases "merge_slots sls [0..<n]")
    case (Inl e)
    then have "\<not> (\<forall>i < n. length (entries_at sls i) = 1)"
      using merge_slots_Inr [of sls "[0..<n]" "map (\<lambda>i. hd (entries_at sls i)) [0..<n]"] by auto
    with Inl cl n show ?thesis
      by (auto simp: assemble_group_def sls Let_def)
  next
    case (Inr m)
    then have all1: "\<forall>i < n. length (entries_at sls i) = 1"
      and m: "m = map (\<lambda>i. hd (entries_at sls i)) [0..<n]"
      using merge_slots_Inr [of sls "[0..<n]" m] by auto
    have dj: "decode_join dec m = Some b \<longleftrightarrow>
        (\<forall>i < n. dec (hd (entries_at sls i)) \<noteq> None) \<and>
        b = concat (map (\<lambda>i. the (dec (hd (entries_at sls i)))) [0..<n])" for b
      unfolding decode_join_Some m by (auto simp: comp_def)
    show ?thesis
    proof (cases "decode_join dec m")
      case None
      with dj have "\<not> (\<forall>i < n. dec (hd (entries_at sls i)) \<noteq> None)"
        by (metis option.distinct(1))
      with None Inr cl n show ?thesis
        by (auto simp: assemble_group_def sls Let_def)
    next
      case (Some b)
      with dj [of b] Inr cl n all1 show ?thesis
        by (auto simp: assemble_group_def sls Let_def)
    qed
  qed
qed

lemma assemble_group_first_bad:
  assumes "sls \<noteq> []" and "\<forall>sl \<in> set sls. length sl = n"
    and "i < n" and "\<forall>j < i. length (entries_at sls j) = 1"
    and "length (entries_at sls i) \<noteq> 1"
  shows "assemble_group dec enc sls =
           Inl (if length (entries_at sls i) = 0 then NoSigner i else MultipleSigners i)"
proof -
  from assms obtain first rest where sls: "sls = first # rest" by (cases sls) auto
  with assms have n: "length first = n" by simp
  have cl: "check_lengths n 0 sls = None" using assms by (simp add: check_lengths_None)
  have split: "[0..<n] = [0..<i] @ i # [Suc i..<n]"
    using \<open>i < n\<close> by (metis less_imp_add_positive upt_add_eq_append upt_conv_Cons zero_le le_add1 add.commute less_imp_le_nat upt_rec)
  have "merge_slots sls ([0..<i] @ i # [Suc i..<n]) =
          Inl (if length (entries_at sls i) = 0 then NoSigner i else MultipleSigners i)"
    by (rule merge_slots_first_bad) (use assms in auto)
  with cl n split show ?thesis
    by (simp add: assemble_group_def sls Let_def)
qed

lemma assemble_group_unequal:
  assumes "sl \<in> set sls" and "length sl \<noteq> length (hd sls)"
  shows "\<exists>i a. assemble_group dec enc sls = Inl (LengthMismatch i a (length (hd sls))) \<and> a \<noteq> length (hd sls)"
proof -
  from assms obtain first rest where sls: "sls = first # rest" by (cases sls) auto
  have "check_lengths (length first) 0 sls \<noteq> None"
    using assms unfolding check_lengths_None sls by auto
  then obtain e where e: "check_lengths (length first) 0 sls = Some e" by auto
  from check_lengths_Some [OF this] obtain j a where "e = LengthMismatch j a (length first)" "a \<noteq> length first"
    by auto
  with e show ?thesis by (auto simp: assemble_group_def sls Let_def)
qed

text \<open>
  Claim C1, as amended. For a non-empty list of arrays that all have length \<open>n\<close>:
  \<open>assemble_group\<close> succeeds exactly when every index below \<open>n\<close> has exactly one
  non-empty entry across the arrays and that entry is valid base64; the result is then
  the encoding of the decoded entries concatenated in slot order. When it fails on the
  slots, the error is that of the lowest offending index: a missing-signer error when
  that index has no non-empty entry, a conflicting-signer error when it has two or
  more. Arrays of unequal lengths fail with a length error.
\<close>

theorem assemble_group_first_offender:
  "(signed_lists \<noteq> [] \<and> (\<forall>sl \<in> set signed_lists. length sl = n) \<longrightarrow>
      ((\<exists>r. assemble_group dec enc signed_lists = Inr r) \<longleftrightarrow>
         (\<forall>i < n. length (entries_at signed_lists i) = 1 \<and> dec (hd (entries_at signed_lists i)) \<noteq> None))
    \<and> (\<forall>r. assemble_group dec enc signed_lists = Inr r \<longrightarrow>
           r = enc (concat (map (\<lambda>i. the (dec (hd (entries_at signed_lists i)))) [0..<n])))
    \<and> (\<forall>i < n. (\<forall>j < i. length (entries_at signed_lists j) = 1)
                  \<and> length (entries_at signed_lists i) = 0 \<longrightarrow>
           assemble_group dec enc signed_lists = Inl (NoSigner i))
    \<and> (\<forall>i < n. (\<forall>j < i. length (entries_at signed_lists j) = 1)
                  \<and> length (entries_at signed_lists i) > 1 \<longrightarrow>
           assemble_group dec enc signed_lists = Inl (MultipleSigners i)))
   \<and> ((\<exists>sl \<in> set signed_lists. length sl \<noteq> length (hd signed_lists)) \<longrightarrow>
        (\<exists>i a. assemble_group dec enc signed_lists = Inl (LengthMismatch i a (length (hd signed_lists)))))"
proof (intro conjI impI)
  assume h: "signed_lists \<noteq> [] \<and> (\<forall>sl \<in> set signed_lists. length sl = n)"
  then have ne: "signed_lists \<noteq> []" and len: "\<forall>sl \<in> set signed_lists. length sl = n"
    by auto
  note succ = assemble_group_success [OF ne len, of dec enc]
  show "(\<exists>r. assemble_group dec enc signed_lists = Inr r) \<longleftrightarrow>
         (\<forall>i < n. length (entries_at signed_lists i) = 1 \<and> dec (hd (entries_at signed_lists i)) \<noteq> None)"
    using succ by blast
  show "\<forall>r. assemble_group dec enc signed_lists = Inr r \<longrightarrow>
           r = enc (concat (map (\<lambda>i. the (dec (hd (entries_at signed_lists i)))) [0..<n]))"
    using succ by blast
  show "\<forall>i < n. (\<forall>j < i. length (entries_at signed_lists j) = 1)
                  \<and> length (entries_at signed_lists i) = 0 \<longrightarrow>
           assemble_group dec enc signed_lists = Inl (NoSigner i)"
  proof (intro allI impI)
    fix i assume "i < n"
      and "(\<forall>j < i. length (entries_at signed_lists j) = 1) \<and> length (entries_at signed_lists i) = 0"
    then show "assemble_group dec enc signed_lists = Inl (NoSigner i)"
      using assemble_group_first_bad [OF ne len, of i dec enc] by (auto simp del: length_0_conv)
  qed
  show "\<forall>i < n. (\<forall>j < i. length (entries_at signed_lists j) = 1)
                  \<and> length (entries_at signed_lists i) > 1 \<longrightarrow>
           assemble_group dec enc signed_lists = Inl (MultipleSigners i)"
  proof (intro allI impI)
    fix i assume "i < n"
      and "(\<forall>j < i. length (entries_at signed_lists j) = 1) \<and> length (entries_at signed_lists i) > 1"
    then show "assemble_group dec enc signed_lists = Inl (MultipleSigners i)"
      using assemble_group_first_bad [OF ne len, of i dec enc] by (auto simp del: length_0_conv)
  qed
next
  assume "\<exists>sl \<in> set signed_lists. length sl \<noteq> length (hd signed_lists)"
  then show "\<exists>i a. assemble_group dec enc signed_lists = Inl (LengthMismatch i a (length (hd signed_lists)))"
    using assemble_group_unequal [of _ signed_lists dec enc] by blast
qed

text \<open>
  The theorem at concrete inputs: a complete three-signer group, a group whose slot 1
  nobody signed, a group whose slot 1 two signers signed, and arrays of unequal length.
\<close>

theorem assemble_group_first_offender_witness:
  "assemble_group b64decode b64encode [[''QQ=='', ''''], ['''', ''Qg==''], ['''', '''']] = Inr ''QUI=''
   \<and> assemble_group b64decode b64encode [[''QQ=='', ''''], ['''', '''']] = Inl (NoSigner 1)
   \<and> assemble_group b64decode b64encode [[''QQ=='', ''Qg==''], ['''', ''Qg=='']] = Inl (MultipleSigners 1)
   \<and> (\<exists>i a. assemble_group b64decode b64encode [[''QQ=='', ''''], [''Qg=='']] = Inl (LengthMismatch i a 2))"
proof -
  let ?A = "[[''QQ=='', ''''], ['''', ''Qg==''], ['''', '''']]"
  let ?B = "[[''QQ=='', ''''], ['''', '''']]"
  let ?C = "[[''QQ=='', ''Qg==''], ['''', ''Qg=='']]"
  let ?D = "[[''QQ=='', ''''], [''Qg=='']]"
  have dA: "b64decode ''QQ=='' = Some [65]" "b64decode ''Qg=='' = Some [66]" by code_simp+
  have eA: "b64encode [65, 66] = ''QUI=''" by code_simp
  have upt2: "[0..<2] = [0, Suc 0]" by (simp add: upt_rec)
  have A0: "entries_at ?A 0 = [''QQ=='']" and A1: "entries_at ?A (Suc 0) = [''Qg=='']"
    by (simp_all add: entries_at_def)
  have hA: "?A \<noteq> [] \<and> (\<forall>sl \<in> set ?A. length sl = 2)" by simp
  have allA: "\<forall>i < 2. length (entries_at ?A i) = 1 \<and> b64decode (hd (entries_at ?A i)) \<noteq> None"
  proof (intro allI impI)
    fix i :: nat assume "i < 2"
    then have "i = 0 \<or> i = Suc 0" by arith
    then show "length (entries_at ?A i) = 1 \<and> b64decode (hd (entries_at ?A i)) \<noteq> None"
      using A0 A1 dA by (elim disjE) (simp_all only: list.sel list.size, simp_all)
  qed
  note TA = assemble_group_first_offender [of ?A 2 b64decode b64encode, THEN conjunct1, THEN mp, OF hA]
  from TA [THEN conjunct1] allA
  obtain r where r: "assemble_group b64decode b64encode ?A = Inr r" by blast
  with TA [THEN conjunct2, THEN conjunct1]
  have "r = b64encode (concat (map (\<lambda>i. the (b64decode (hd (entries_at ?A i)))) [0..<2]))"
    by blast
  then have "r = ''QUI=''" unfolding upt2 using A0 A1 dA eA by simp
  with r have 1: "assemble_group b64decode b64encode ?A = Inr ''QUI=''" by simp
  have B0: "entries_at ?B 0 = [''QQ=='']" and B1: "entries_at ?B (Suc 0) = []"
    by (simp_all add: entries_at_def)
  have hB: "?B \<noteq> [] \<and> (\<forall>sl \<in> set ?B. length sl = 2)" by simp
  note TB = assemble_group_first_offender [of ?B 2 b64decode b64encode, THEN conjunct1, THEN mp, OF hB]
  have pB: "(\<forall>j < Suc 0. length (entries_at ?B j) = 1) \<and> length (entries_at ?B (Suc 0)) = 0"
    using B0 B1 by simp
  have 2: "assemble_group b64decode b64encode ?B = Inl (NoSigner 1)"
    using TB [THEN conjunct2, THEN conjunct2, THEN conjunct1, rule_format, of "Suc 0", OF _ pB]
    by simp
  have C0: "entries_at ?C 0 = [''QQ=='']" and C1: "entries_at ?C (Suc 0) = [''Qg=='', ''Qg=='']"
    by (simp_all add: entries_at_def)
  have hC: "?C \<noteq> [] \<and> (\<forall>sl \<in> set ?C. length sl = 2)" by simp
  note TC = assemble_group_first_offender [of ?C 2 b64decode b64encode, THEN conjunct1, THEN mp, OF hC]
  have pC: "(\<forall>j < Suc 0. length (entries_at ?C j) = 1) \<and> length (entries_at ?C (Suc 0)) > 1"
    using C0 C1 by simp
  have 3: "assemble_group b64decode b64encode ?C = Inl (MultipleSigners 1)"
    using TC [THEN conjunct2, THEN conjunct2, THEN conjunct2, rule_format, of "Suc 0", OF _ pC]
    by simp
  have hD: "\<exists>sl \<in> set ?D. length sl \<noteq> length (hd ?D)" by simp
  have 4: "\<exists>i a. assemble_group b64decode b64encode ?D = Inl (LengthMismatch i a 2)"
    using assemble_group_first_offender [of ?D 2 b64decode b64encode, THEN conjunct2, THEN mp, OF hD]
    by (simp add: numeral_2_eq_2)
  from 1 2 3 4 show ?thesis by blast
qed

text \<open>
  Claim C1 as first stated fails: here both arrays have length 2 and index 1 has no
  non-empty entry, yet the error is the conflicting-signer error of index 0, which the
  loop meets first, and not a missing-signer error.
\<close>

theorem assemble_group_missing_counterexample:
  "map length [[''QQ=='', ''''], [''Qg=='', '''']] = [2, 2]
   \<and> entries_at [[''QQ=='', ''''], [''Qg=='', '''']] 1 = []
   \<and> assemble_group b64decode b64encode [[''QQ=='', ''''], [''Qg=='', '''']] = Inl (MultipleSigners 0)"
  by (simp add: assemble_group_def entries_at_def upt_rec)
section \<open>Properties of \<open>sign_transactions\<close>\<close>

lemma py_iter_truthy: "py_iter sh = Some hs \<Longrightarrow> py_truthy sh \<longleftrightarrow> hs \<noteq> []"
  by (cases sh) auto

lemma convert_signed_map:
  "\<forall>x \<in> set xs. x = [] \<or> unhex x \<noteq> None \<Longrightarrow>
   convert_signed unhex enc (map JStr xs)
     = Inr (map (\<lambda>x. if x = [] then [] else enc (the (unhex x))) xs)"
  by (induction xs) auto

lemma convert_signed_Cons_Inr:
  assumes "convert_signed unhex enc (h # hs) = Inr sl"
  obtains x rest where "h = JStr x" and "x = [] \<or> unhex x \<noteq> None"
    and "convert_signed unhex enc hs = Inr rest"
proof (cases h)
  case (JStr x)
  show ?thesis
  proof (cases "x = []")
    case True
    with assms JStr obtain rest where "convert_signed unhex enc hs = Inr rest"
      by (cases "convert_signed unhex enc hs") simp_all
    with JStr True that show ?thesis by blast
  next
    case False
    with assms JStr obtain raw where raw: "unhex x = Some raw"
      by (cases "unhex x") simp_all
    with assms JStr False obtain rest where "convert_signed unhex enc hs = Inr rest"
      by (cases "convert_signed unhex enc hs") simp_all
    with JStr raw that show ?thesis by blast
  qed
qed (use assms in simp_all)

lemma convert_signed_strings:
  "convert_signed unhex enc hs = Inr sl \<Longrightarrow>
   \<exists>xs. hs = map JStr xs \<and> (\<forall>x \<in> set xs. x = [] \<or> unhex x \<noteq> None)"
proof (induction hs arbitrary: sl)
  case Nil
  then show ?case by simp
next
  case (Cons h hs)
  from Cons.prems obtain x rest where h: "h = JStr x" "x = [] \<or> unhex x \<noteq> None"
    and rest: "convert_signed unhex enc hs = Inr rest"
    by (rule convert_signed_Cons_Inr)
  from Cons.IH [OF rest] obtain xs where xs: "hs = map JStr xs"
    "\<forall>x \<in> set xs. x = [] \<or> unhex x \<noteq> None" by blast
  with h have "h # hs = map JStr (x # xs) \<and> (\<forall>y \<in> set (x # xs). y = [] \<or> unhex y \<noteq> None)"
    by simp
  then show ?case by (rule exI)
qed

lemma convert_signed_Inr:
  "convert_signed unhex enc hs = Inr sl \<longleftrightarrow>
     (\<exists>xs. hs = map JStr xs \<and> (\<forall>x \<in> set xs. x = [] \<or> unhex x \<noteq> None)
            \<and> sl = map (\<lambda>x. if x = [] then [] else enc (the (unhex x))) xs)"
proof
  assume a: "convert_signed unhex enc hs = Inr sl"
  then obtain xs where xs: "hs = map JStr xs" "\<forall>x \<in> set xs. x = [] \<or> unhex x \<noteq> None"
    using convert_signed_strings by blast
  with a convert_signed_map [of xs unhex enc]
  have "sl = map (\<lambda>x. if x = [] then [] else enc (the (unhex x))) xs" by simp
  with xs show "\<exists>xs. hs = map JStr xs \<and> (\<forall>x \<in> set xs. x = [] \<or> unhex x \<noteq> None)
            \<and> sl = map (\<lambda>x. if x = [] then [] else enc (the (unhex x))) xs" by blast
next
  assume "\<exists>xs. hs = map JStr xs \<and> (\<forall>x \<in> set xs. x = [] \<or> unhex x \<noteq> None)
            \<and> sl = map (\<lambda>x. if x = [] then [] else enc (the (unhex x))) xs"
  then show "convert_signed unhex enc hs = Inr sl"
    using convert_signed_map by blast
qed

lemma handle_sign_response_Inr:
  "handle_sign_response unhex enc outcome = Inr sl \<longleftrightarrow>
     (\<exists>resp data err sh hs.
        outcome = Response resp \<and> status_code resp = 200 \<and> body_json resp = Some data
        \<and> py_get data ''error'' JNull = Some err \<and> \<not> py_truthy err
        \<and> py_get data ''signed'' (JArr []) = Some sh \<and> py_truthy sh
        \<and> py_iter sh = Some hs \<and> convert_signed unhex enc hs = Inr sl)"
proof (cases outcome)
  case RequestException
  then show ?thesis by (simp add: handle_sign_response_def)
next
  case (Response resp)
  consider (e401) "status_code resp = 401" | (e400) "status_code resp = 400"
    | (e403) "status_code resp = 403" | (e503) "status_code resp = 503"
    | (other) "status_code resp \<notin> {401, 400, 403, 503, 200}"
    | (ok) "status_code resp = 200"
    by auto
  then show ?thesis
  proof cases
    case e401
    with Response show ?thesis by (simp add: handle_sign_response_def)
  next
    case e400
    with Response show ?thesis
      by (simp add: handle_sign_response_def split: option.splits json.splits)
  next
    case e403
    with Response show ?thesis
      by (simp add: handle_sign_response_def split: option.splits)
  next
    case e503
    with Response show ?thesis
      by (simp add: handle_sign_response_def split: option.splits)
  next
    case other
    with Response show ?thesis by (simp add: handle_sign_response_def)
  next
    case ok
    have "handle_sign_response unhex enc (Response resp) =
            (case body_json resp of
               None \<Rightarrow> Inl SignerError
             | Some data \<Rightarrow>
                 (case py_get data ''error'' JNull of
                    None \<Rightarrow> Inl AttributeError
                  | Some err \<Rightarrow>
                      (if py_truthy err then Inl SignerError
                       else case py_get data ''signed'' (JArr []) of
                         None \<Rightarrow> Inl AttributeError
                       | Some signed_hexes \<Rightarrow>
                           (if \<not> py_truthy signed_hexes then Inl SignerError
                            else case py_iter signed_hexes of
                              None \<Rightarrow> Inl TypeError
                            | Some hs \<Rightarrow> convert_signed unhex enc hs))))"
      using ok by (simp add: handle_sign_response_def)
    with Response ok show ?thesis
      by (auto split: option.splits if_splits)
  qed
qed

lemma decode_join_None:
  "decode_join dec ss = None \<longleftrightarrow> (\<exists>s \<in> set ss. dec s = None)"
  by (induction ss) (auto split: option.splits)

lemma sign_request_Inr:
  "sign_request encode_txn strict_dec unhex enc post txns auth lsig_args_map passthrough lsig_sizes
      = Inr sl \<longleftrightarrow>
   (\<exists>request_body.
      build_sign_request_body encode_txn strict_dec txns auth lsig_args_map passthrough lsig_sizes
        = Inr request_body
      \<and> handle_sign_response unhex enc (post request_body) = Inr sl)"
  unfolding sign_request_def by (auto split: sum.splits)

lemma sign_transactions_Inr:
  "sign_transactions sender_of encode_txn strict_dec unhex dec enc post
      txns aopt lsig_args_map passthrough lsig_sizes = Inr r \<longleftrightarrow>
   length (auth_addresses_or_senders sender_of txns aopt) = length txns
   \<and> (\<exists>signed_list.
         sign_request encode_txn strict_dec unhex enc post txns
           (auth_addresses_or_senders sender_of txns aopt)
           lsig_args_map passthrough lsig_sizes = Inr signed_list
         \<and> [] \<notin> set signed_list
         \<and> (\<forall>s \<in> set signed_list. dec s \<noteq> None)
         \<and> r = enc (concat (map (\<lambda>s. the (dec s)) signed_list)))"
proof (cases "sign_request encode_txn strict_dec unhex enc post txns
           (auth_addresses_or_senders sender_of txns aopt)
           lsig_args_map passthrough lsig_sizes")
  case (Inl e)
  then show ?thesis by (simp add: sign_transactions_def Let_def)
next
  case (Inr signed_list)
  show ?thesis
  proof (cases "decode_join dec signed_list")
    case None
    then have "\<exists>s \<in> set signed_list. dec s = None" by (simp only: decode_join_None)
    with Inr None show ?thesis
      by (auto simp: sign_transactions_def Let_def)
  next
    case (Some b)
    then have "(\<forall>s \<in> set signed_list. dec s \<noteq> None)"
      and "b = concat (map (\<lambda>s. the (dec s)) signed_list)"
      by (simp_all add: decode_join_Some)
    with Inr Some show ?thesis
      by (auto simp: sign_transactions_def Let_def)
  qed
qed

lemma map_slot_nonempty:
  "[] \<notin> set (map (\<lambda>x. if x = [] then [] else enc (the (unhex x))) xs) \<longleftrightarrow>
   (\<forall>x \<in> set xs. x \<noteq> [] \<and> enc (the (unhex x)) \<noteq> [])"
  by (induction xs) auto

text \<open>
  Claim C10, amended. \<open>sign_transactions\<close> returns exactly when the request could be
  built, the server answered with status 200 and a JSON object without a truthy
  \<open>error\<close> whose \<open>signed\<close> value is a non-empty sequence of non-empty hexadecimal
  strings, each of which gives a non-empty base64 entry that decodes; what it returns
  encodes the bytes of all these entries, in the server's order. The entries are the
  server's: their number is not compared with the number of transactions in the
  request. Whenever the server's \<open>signed\<close> sequence holds an empty entry the call does
  not return: it raises, and what it raises is \<open>SignerError\<close> when the reply is a JSON
  object and every other entry is hexadecimal text.
\<close>

theorem sign_transactions_returns_server_entries:
  "(sign_transactions sender_of encode_txn strict_dec unhex dec enc post
        txns aopt lsig_args_map passthrough lsig_sizes = Inr r \<longleftrightarrow>
      length (auth_addresses_or_senders sender_of txns aopt) = length txns
      \<and> (\<exists>request_body resp data err sh xs.
            build_sign_request_body encode_txn strict_dec txns
              (auth_addresses_or_senders sender_of txns aopt) lsig_args_map passthrough lsig_sizes
              = Inr request_body
            \<and> post request_body = Response resp \<and> status_code resp = 200
            \<and> body_json resp = Some data
            \<and> py_get data ''error'' JNull = Some err \<and> \<not> py_truthy err
            \<and> py_get data ''signed'' (JArr []) = Some sh
            \<and> py_iter sh = Some (map JStr xs) \<and> xs \<noteq> []
            \<and> (\<forall>x \<in> set xs. x \<noteq> [] \<and> unhex x \<noteq> None \<and> enc (the (unhex x)) \<noteq> []
                              \<and> dec (enc (the (unhex x))) \<noteq> None)
            \<and> r = enc (concat (map (\<lambda>x. the (dec (enc (the (unhex x))))) xs))))
   \<and> (\<forall>request_body resp data sh hs.
        build_sign_request_body encode_txn strict_dec txns
            (auth_addresses_or_senders sender_of txns aopt) lsig_args_map passthrough lsig_sizes
          = Inr request_body
        \<and> post request_body = Response resp \<and> status_code resp = 200
        \<and> body_json resp = Some data
        \<and> py_get data ''signed'' (JArr []) = Some sh
        \<and> py_iter sh = Some hs \<and> JStr [] \<in> set hs \<longrightarrow>
        (\<exists>e. sign_transactions sender_of encode_txn strict_dec unhex dec enc post
                txns aopt lsig_args_map passthrough lsig_sizes = Inl e)
        \<and> (length (auth_addresses_or_senders sender_of txns aopt) = length txns
            \<and> (\<forall>h \<in> set hs. \<exists>x. h = JStr x \<and> (x = [] \<or> unhex x \<noteq> None)) \<longrightarrow>
            sign_transactions sender_of encode_txn strict_dec unhex dec enc post
                txns aopt lsig_args_map passthrough lsig_sizes = Inl SignerError))"
proof (intro conjI allI impI)
  let ?auth = "auth_addresses_or_senders sender_of txns aopt"
  let ?call = "sign_transactions sender_of encode_txn strict_dec unhex dec enc post
        txns aopt lsig_args_map passthrough lsig_sizes"
  let ?slot = "\<lambda>x. if x = [] then [] else enc (the (unhex x))"
  let ?R = "\<lambda>request_body resp data err sh xs.
            build_sign_request_body encode_txn strict_dec txns ?auth lsig_args_map passthrough lsig_sizes
              = Inr request_body
            \<and> post request_body = Response resp \<and> status_code resp = 200
            \<and> body_json resp = Some data
            \<and> py_get data ''error'' JNull = Some err \<and> \<not> py_truthy err
            \<and> py_get data ''signed'' (JArr []) = Some sh
            \<and> py_iter sh = Some (map JStr xs) \<and> xs \<noteq> []
            \<and> (\<forall>x \<in> set xs. x \<noteq> [] \<and> unhex x \<noteq> None \<and> enc (the (unhex x)) \<noteq> []
                              \<and> dec (enc (the (unhex x))) \<noteq> None)
            \<and> r = enc (concat (map (\<lambda>x. the (dec (enc (the (unhex x))))) xs))"
  show "?call = Inr r \<longleftrightarrow>
      length ?auth = length txns
      \<and> (\<exists>request_body resp data err sh xs. ?R request_body resp data err sh xs)"
  proof
    assume "?call = Inr r"
    then obtain signed_list where len: "length ?auth = length txns"
      and sr: "sign_request encode_txn strict_dec unhex enc post txns ?auth
                 lsig_args_map passthrough lsig_sizes = Inr signed_list"
      and ne: "[] \<notin> set signed_list"
      and dc: "\<forall>s \<in> set signed_list. dec s \<noteq> None"
      and r: "r = enc (concat (map (\<lambda>s. the (dec s)) signed_list))"
      unfolding sign_transactions_Inr by blast
    from sr obtain request_body where
      b: "build_sign_request_body encode_txn strict_dec txns ?auth lsig_args_map passthrough lsig_sizes
            = Inr request_body"
      and h: "handle_sign_response unhex enc (post request_body) = Inr signed_list"
      unfolding sign_request_Inr by blast
    from h obtain resp data err sh hs where
      p: "post request_body = Response resp" "status_code resp = 200" "body_json resp = Some data"
         "py_get data ''error'' JNull = Some err" "\<not> py_truthy err"
         "py_get data ''signed'' (JArr []) = Some sh" "py_truthy sh" "py_iter sh = Some hs"
      and c: "convert_signed unhex enc hs = Inr signed_list"
      unfolding handle_sign_response_Inr by blast
    from c obtain xs where xs: "hs = map JStr xs" "\<forall>x \<in> set xs. x = [] \<or> unhex x \<noteq> None"
      "signed_list = map ?slot xs"
      unfolding convert_signed_Inr by blast
    from ne xs(3) have ne': "\<forall>x \<in> set xs. x \<noteq> [] \<and> enc (the (unhex x)) \<noteq> []"
      by (simp only: map_slot_nonempty)
    then have slot: "map ?slot xs = map (\<lambda>x. enc (the (unhex x))) xs" by simp
    from p(7,8) xs(1) have nonempty: "xs \<noteq> []" using py_iter_truthy [of sh hs] by simp
    from dc xs(3) slot have dc': "\<forall>x \<in> set xs. dec (enc (the (unhex x))) \<noteq> None" by simp
    from r xs(3) slot have r': "r = enc (concat (map (\<lambda>x. the (dec (enc (the (unhex x))))) xs))"
      by (simp add: comp_def)
    from xs(2) ne' dc' have all: "\<forall>x \<in> set xs. x \<noteq> [] \<and> unhex x \<noteq> None \<and> enc (the (unhex x)) \<noteq> []
                              \<and> dec (enc (the (unhex x))) \<noteq> None" by blast
    have "?R request_body resp data err sh xs"
      using b p(1-6) p(8) xs(1) nonempty all r' by simp
    then have "\<exists>request_body resp data err sh xs. ?R request_body resp data err sh xs" by blast
    with len show "length ?auth = length txns
      \<and> (\<exists>request_body resp data err sh xs. ?R request_body resp data err sh xs)" by simp
  next
    assume "length ?auth = length txns
      \<and> (\<exists>request_body resp data err sh xs. ?R request_body resp data err sh xs)"
    then obtain request_body resp data err sh xs where len: "length ?auth = length txns"
      and R: "?R request_body resp data err sh xs" by blast
    from R have all: "\<forall>x \<in> set xs. x \<noteq> [] \<and> unhex x \<noteq> None \<and> enc (the (unhex x)) \<noteq> []
                              \<and> dec (enc (the (unhex x))) \<noteq> None" by simp
    then have slot: "map ?slot xs = map (\<lambda>x. enc (the (unhex x))) xs" by simp
    from all have "\<forall>x \<in> set xs. x = [] \<or> unhex x \<noteq> None" by blast
    then have c: "convert_signed unhex enc (map JStr xs) = Inr (map ?slot xs)"
      by (rule convert_signed_map)
    from R have "py_truthy sh" using py_iter_truthy [of sh "map JStr xs"] by simp
    with R c have h: "handle_sign_response unhex enc (post request_body) = Inr (map ?slot xs)"
      unfolding handle_sign_response_Inr by blast
    with R have sr: "sign_request encode_txn strict_dec unhex enc post txns ?auth
                 lsig_args_map passthrough lsig_sizes = Inr (map ?slot xs)"
      unfolding sign_request_Inr by blast
    from all have ne: "[] \<notin> set (map ?slot xs)" by (simp only: map_slot_nonempty) simp
    from all slot have dc: "\<forall>s \<in> set (map ?slot xs). dec s \<noteq> None" by simp
    from R have r: "r = enc (concat (map (\<lambda>s. the (dec s)) (map ?slot xs)))"
      unfolding slot by (simp add: comp_def)
    from len sr ne dc r show "?call = Inr r"
      unfolding sign_transactions_Inr by blast
  qed
next
  fix request_body resp data sh hs
  assume a: "build_sign_request_body encode_txn strict_dec txns
            (auth_addresses_or_senders sender_of txns aopt) lsig_args_map passthrough lsig_sizes
          = Inr request_body
        \<and> post request_body = Response resp \<and> status_code resp = 200
        \<and> body_json resp = Some data
        \<and> py_get data ''signed'' (JArr []) = Some sh
        \<and> py_iter sh = Some hs \<and> JStr [] \<in> set hs"
  let ?call = "sign_transactions sender_of encode_txn strict_dec unhex dec enc post
        txns aopt lsig_args_map passthrough lsig_sizes"
  have "?call \<noteq> Inr r" for r
  proof
    assume "?call = Inr r"
    then obtain signed_list where
      sr: "sign_request encode_txn strict_dec unhex enc post txns
             (auth_addresses_or_senders sender_of txns aopt)
             lsig_args_map passthrough lsig_sizes = Inr signed_list"
      and ne: "[] \<notin> set signed_list"
      unfolding sign_transactions_Inr by blast
    from sr a have "handle_sign_response unhex enc (Response resp) = Inr signed_list"
      unfolding sign_request_Inr by auto
    then obtain hs' where "py_iter sh = Some hs'" "convert_signed unhex enc hs' = Inr signed_list"
      unfolding handle_sign_response_Inr using a by auto
    with a have "convert_signed unhex enc hs = Inr signed_list" by simp
    then obtain xs where xs: "hs = map JStr xs"
      "signed_list = map (\<lambda>x. if x = [] then [] else enc (the (unhex x))) xs"
      unfolding convert_signed_Inr by blast
    from a xs(1) have "[] \<in> set xs" by auto
    with xs(2) have "[] \<in> set signed_list" by force
    with ne show False by contradiction
  qed
  then show "\<exists>e. ?call = Inl e" by (cases ?call) auto
next
  fix request_body resp data sh hs
  assume a: "build_sign_request_body encode_txn strict_dec txns
            (auth_addresses_or_senders sender_of txns aopt) lsig_args_map passthrough lsig_sizes
          = Inr request_body
        \<and> post request_body = Response resp \<and> status_code resp = 200
        \<and> body_json resp = Some data
        \<and> py_get data ''signed'' (JArr []) = Some sh
        \<and> py_iter sh = Some hs \<and> JStr [] \<in> set hs"
    and b: "length (auth_addresses_or_senders sender_of txns aopt) = length txns
            \<and> (\<forall>h \<in> set hs. \<exists>x. h = JStr x \<and> (x = [] \<or> unhex x \<noteq> None))"
  let ?call = "sign_transactions sender_of encode_txn strict_dec unhex dec enc post
        txns aopt lsig_args_map passthrough lsig_sizes"
  let ?slot = "\<lambda>x. if x = [] then [] else enc (the (unhex x))"
  from a obtain kvs where data: "data = JObj kvs" by (cases data) auto
  then obtain err where err: "py_get data ''error'' JNull = Some err" by simp
  from a have truthy: "py_truthy sh" using py_iter_truthy [of sh hs] by auto
  from b have "\<exists>xs. hs = map JStr xs"
    by (metis ex_map_conv)
  then obtain xs where xs: "hs = map JStr xs" by blast
  with b have wf: "\<forall>x \<in> set xs. x = [] \<or> unhex x \<noteq> None" by auto
  then have c: "convert_signed unhex enc hs = Inr (map ?slot xs)"
    unfolding xs by (rule convert_signed_map)
  from a xs have "[] \<in> set xs" by auto
  then have em: "[] \<in> set (map ?slot xs)" by force
  show "?call = Inl SignerError"
  proof (cases "py_truthy err")
    case True
    with a err have "handle_sign_response unhex enc (post request_body) = Inl SignerError"
      by (simp add: handle_sign_response_def)
    with a b show ?thesis
      by (simp add: sign_transactions_def sign_request_def Let_def)
  next
    case False
    with a err truthy c
    have "handle_sign_response unhex enc (post request_body) = Inr (map ?slot xs)"
      by (simp add: handle_sign_response_def)
    with a b em show ?thesis
      by (simp add: sign_transactions_def sign_request_def Let_def del: set_map)
  qed
qed

text \<open>
  The theorem at concrete inputs: a two-transaction group whose second slot the server
  leaves unsigned is rejected with \<open>SignerError\<close>, and one answered with two signed
  entries is returned concatenated.
\<close>

theorem sign_transactions_returns_server_entries_witness:
  "sign_transactions (\<lambda>t. t) (\<lambda>t. (''5458'', t)) b64decode bytes_fromhex b64decode b64encode
     foreign_slot_server [Some ''ALICE'', Some ''BOB''] (Some [Some ''ALICE'', None]) [] [] []
     = Inl SignerError
   \<and> sign_transactions (\<lambda>t. t) (\<lambda>t. (''5458'', t)) b64decode bytes_fromhex b64decode b64encode
     full_server [Some ''ALICE'', Some ''BOB''] None [] [] []
     = Inr ''QUI=''"
proof -
  let ?txns = "[Some ''ALICE'', Some ''BOB'']"
  let ?enct = "\<lambda>t::string. (''5458'', t)"
  let ?sender = "\<lambda>t::string. t"
  let ?resp = "\<lparr>status_code = 200,
                body_json = Some (JObj [(''signed'', JArr [JStr ''41'', JStr ''''])]),
                body_text = ''''\<rparr>"
  let ?resp2 = "\<lparr>status_code = 200,
                body_json = Some (JObj [(''signed'', JArr [JStr ''41'', JStr ''42''])]),
                body_text = ''''\<rparr>"
  note T = sign_transactions_returns_server_entries
  have auth1: "auth_addresses_or_senders ?sender ?txns (Some [Some ''ALICE'', None]) = [Some ''ALICE'', None]"
    by (simp add: auth_addresses_or_senders_def)
  have auth2: "auth_addresses_or_senders ?sender ?txns None = [Some ''ALICE'', Some ''BOB'']"
    by (simp add: auth_addresses_or_senders_def)
  have body1: "build_sign_request_body ?enct b64decode ?txns [Some ''ALICE'', None] [] [] []
      = Inr [SignReq ''5458'' ''ALICE'' ''ALICE'' None, ForeignReq ''5458'' None]"
    by (simp add: build_sign_request_body_def passthrough_in_range_def lsig_sizes_valid_def)
  have body2: "build_sign_request_body ?enct b64decode ?txns [Some ''ALICE'', Some ''BOB''] [] [] []
      = Inr [SignReq ''5458'' ''ALICE'' ''ALICE'' None, SignReq ''5458'' ''BOB'' ''BOB'' None]"
    by (simp add: build_sign_request_body_def passthrough_in_range_def lsig_sizes_valid_def)
  have fh: "bytes_fromhex ''41'' = Some [65]" "bytes_fromhex ''42'' = Some [66]" by code_simp+
  have enc1: "b64encode [65] = ''QQ==''" "b64encode [66] = ''Qg==''" "b64encode [65, 66] = ''QUI=''"
    by code_simp+
  have dec1: "b64decode ''QQ=='' = Some [65]" "b64decode ''Qg=='' = Some [66]" by code_simp+
  have wf: "\<forall>h \<in> set [JStr ''41'', JStr '''']. \<exists>x. h = JStr x \<and> (x = [] \<or> bytes_fromhex x \<noteq> None)"
    using fh by simp
  have prem1: "build_sign_request_body ?enct b64decode ?txns
            (auth_addresses_or_senders ?sender ?txns (Some [Some ''ALICE'', None])) [] [] []
          = Inr [SignReq ''5458'' ''ALICE'' ''ALICE'' None, ForeignReq ''5458'' None]
        \<and> foreign_slot_server [SignReq ''5458'' ''ALICE'' ''ALICE'' None, ForeignReq ''5458'' None]
            = Response ?resp
        \<and> status_code ?resp = 200
        \<and> body_json ?resp = Some (JObj [(''signed'', JArr [JStr ''41'', JStr ''''])])
        \<and> py_get (JObj [(''signed'', JArr [JStr ''41'', JStr ''''])]) ''signed'' (JArr [])
            = Some (JArr [JStr ''41'', JStr ''''])
        \<and> py_iter (JArr [JStr ''41'', JStr '''']) = Some [JStr ''41'', JStr '''']
        \<and> JStr [] \<in> set [JStr ''41'', JStr '''']"
    using auth1 body1 by (simp add: foreign_slot_server_def)
  have 1: "sign_transactions ?sender ?enct b64decode bytes_fromhex b64decode b64encode
     foreign_slot_server ?txns (Some [Some ''ALICE'', None]) [] [] [] = Inl SignerError"
    using T [where sender_of = ?sender and txns = ?txns and aopt = "Some [Some ''ALICE'', None]"
               and encode_txn = ?enct and strict_dec = b64decode and unhex = bytes_fromhex
               and enc = b64encode and post = foreign_slot_server and lsig_args_map = "[]"
               and passthrough = "[]" and lsig_sizes = "[]" and dec = b64decode,
             THEN conjunct2, rule_format, OF prem1, THEN conjunct2]
      auth1 wf
    by simp
  have prem2: "length (auth_addresses_or_senders ?sender ?txns None) = length ?txns
      \<and> (\<exists>request_body resp data err sh xs.
            build_sign_request_body ?enct b64decode ?txns
              (auth_addresses_or_senders ?sender ?txns None) [] [] []
              = Inr request_body
            \<and> full_server request_body = Response resp \<and> status_code resp = 200
            \<and> body_json resp = Some data
            \<and> py_get data ''error'' JNull = Some err \<and> \<not> py_truthy err
            \<and> py_get data ''signed'' (JArr []) = Some sh
            \<and> py_iter sh = Some (map JStr xs) \<and> xs \<noteq> []
            \<and> (\<forall>x \<in> set xs. x \<noteq> [] \<and> bytes_fromhex x \<noteq> None
                              \<and> b64encode (the (bytes_fromhex x)) \<noteq> []
                              \<and> b64decode (b64encode (the (bytes_fromhex x))) \<noteq> None)
            \<and> ''QUI='' = b64encode (concat (map (\<lambda>x. the (b64decode (b64encode (the (bytes_fromhex x))))) xs)))"
  proof (intro conjI)
    show "length (auth_addresses_or_senders ?sender ?txns None) = length ?txns"
      by (simp add: auth2)
    have "build_sign_request_body ?enct b64decode ?txns
              (auth_addresses_or_senders ?sender ?txns None) [] [] []
              = Inr [SignReq ''5458'' ''ALICE'' ''ALICE'' None, SignReq ''5458'' ''BOB'' ''BOB'' None]
            \<and> full_server [SignReq ''5458'' ''ALICE'' ''ALICE'' None, SignReq ''5458'' ''BOB'' ''BOB'' None]
                = Response ?resp2 \<and> status_code ?resp2 = 200
            \<and> body_json ?resp2 = Some (JObj [(''signed'', JArr [JStr ''41'', JStr ''42''])])
            \<and> py_get (JObj [(''signed'', JArr [JStr ''41'', JStr ''42''])]) ''error'' JNull = Some JNull
            \<and> \<not> py_truthy JNull
            \<and> py_get (JObj [(''signed'', JArr [JStr ''41'', JStr ''42''])]) ''signed'' (JArr [])
                = Some (JArr [JStr ''41'', JStr ''42''])
            \<and> py_iter (JArr [JStr ''41'', JStr ''42'']) = Some (map JStr [''41'', ''42''])
            \<and> [''41'', ''42''] \<noteq> []
            \<and> (\<forall>x \<in> set [''41'', ''42'']. x \<noteq> [] \<and> bytes_fromhex x \<noteq> None
                              \<and> b64encode (the (bytes_fromhex x)) \<noteq> []
                              \<and> b64decode (b64encode (the (bytes_fromhex x))) \<noteq> None)
            \<and> ''QUI='' = b64encode (concat (map (\<lambda>x. the (b64decode (b64encode (the (bytes_fromhex x)))))
                                                [''41'', ''42'']))"
      using auth2 body2 fh enc1 dec1 by (simp add: full_server_def)
    then show "\<exists>request_body resp data err sh xs.
            build_sign_request_body ?enct b64decode ?txns
              (auth_addresses_or_senders ?sender ?txns None) [] [] []
              = Inr request_body
            \<and> full_server request_body = Response resp \<and> status_code resp = 200
            \<and> body_json resp = Some data
            \<and> py_get data ''error'' JNull = Some err \<and> \<not> py_truthy err
            \<and> py_get data ''signed'' (JArr []) = Some sh
            \<and> py_iter sh = Some (map JStr xs) \<and> xs \<noteq> []
            \<and> (\<forall>x \<in> set xs. x \<noteq> [] \<and> bytes_fromhex x \<noteq> None
                              \<and> b64encode (the (bytes_fromhex x)) \<noteq> []
                              \<and> b64decode (b64encode (the (bytes_fromhex x))) \<noteq> None)
            \<and> ''QUI='' = b64encode (concat (map (\<lambda>x. the (b64decode (b64encode (the (bytes_fromhex x))))) xs))"
      by (intro exI)
  qed
  have 2: "sign_transactions ?sender ?enct b64decode bytes_fromhex b64decode b64encode
     full_server ?txns None [] [] [] = Inr ''QUI=''"
    by (rule T [where sender_of = ?sender and txns = ?txns and aopt = None
               and encode_txn = ?enct and strict_dec = b64decode and unhex = bytes_fromhex
               and enc = b64encode and post = full_server and lsig_args_map = "[]"
               and passthrough = "[]" and lsig_sizes = "[]" and dec = b64decode
               and r = "''QUI=''",
             THEN conjunct1, THEN iffD2, OF prem2])
  from 1 2 show ?thesis by (rule conjI)
qed

text \<open>
  The claim as written fails on two replies. A server that answers a request for two
  transactions with a single signed entry makes \<open>sign_transactions\<close> return that one
  transaction as the group: the number of entries is never compared with the number
  of transactions asked for. And a reply holding an empty entry followed by text that
  is not hexadecimal raises \<open>ValueError\<close> (from \<open>bytes.fromhex\<close>), not \<open>SignerError\<close>.
\<close>

theorem sign_transactions_short_reply_counterexample:
  "sign_transactions (\<lambda>t. t) (\<lambda>t. (''5458'', t)) b64decode bytes_fromhex b64decode b64encode
     short_reply_server [Some ''ALICE'', Some ''BOB''] None [] [] []
     = Inr (b64encode [65])
   \<and> length [Some ''ALICE'', Some ''BOB''] = 2
   \<and> sign_transactions (\<lambda>t. t) (\<lambda>t. (''5458'', t)) b64decode bytes_fromhex b64decode b64encode
     malformed_reply_server [Some ''ALICE'', Some ''BOB''] (Some [None, Some ''BOB'']) [] [] []
     = Inl ValueError"
proof -
  have fh: "bytes_fromhex ''41'' = Some [65]" "bytes_fromhex ''zz'' = None" by code_simp+
  have enc1: "b64encode [65] = ''QQ==''" by code_simp
  have dec1: "b64decode ''QQ=='' = Some [65]" by code_simp
  have 1: "sign_transactions (\<lambda>t. t) (\<lambda>t. (''5458'', t)) b64decode bytes_fromhex b64decode b64encode
     short_reply_server [Some ''ALICE'', Some ''BOB''] None [] [] [] = Inr (b64encode [65])"
    using fh dec1
    by (simp add: sign_transactions_def auth_addresses_or_senders_def sign_request_def
        build_sign_request_body_def passthrough_in_range_def lsig_sizes_valid_def
        short_reply_server_def handle_sign_response_def enc1)
  have 2: "sign_transactions (\<lambda>t. t) (\<lambda>t. (''5458'', t)) b64decode bytes_fromhex b64decode b64encode
     malformed_reply_server [Some ''ALICE'', Some ''BOB''] (Some [None, Some ''BOB'']) [] [] []
     = Inl ValueError"
    using fh
    by (simp add: sign_transactions_def auth_addresses_or_senders_def sign_request_def
        build_sign_request_body_def passthrough_in_range_def lsig_sizes_valid_def
        malformed_reply_server_def handle_sign_response_def)
  from 1 2 show ?thesis by simp
qed

section \<open>Properties of the exchange store\<close>


















section \<open>Properties of the proposal hash\<close>



































end
